theory Spec2Isabelle
  imports Main "HOL-Library.Char_ord" "HOL-Library.List_Lexorder" "HOL-Library.Product_Lexorder"
    "HOL-Library.Multiset"
begin

section \<open>Strings and paths\<close>

text \<open>
  A Python string is modelled by the bytes of its UTF-8 encoding, as a \<open>string\<close>. The
  lexicographic order of the bytes (\<open>List_Lexorder\<close> over \<open>Char_ord\<close>) is the order of
  the code points, by which Python compares strings; tuples of strings are compared
  lexicographically (\<open>Product_Lexorder\<close>).

  \<open>lower\<close> is \<open>str.lower\<close> on the ASCII letters and leaves every other byte as it is. It
  is used for the extension of a file name only, which is looked up among six ASCII keys:
  no character outside ASCII lower-cases to a letter of theirs. Where the script
  lower-cases a label or the basis, \<open>str.lower\<close> is taken in full from the run-time
  system (\<open>str_lower\<close> below).
\<close>

definition lower_char :: "char \<Rightarrow> char" where
  "lower_char c =
     (case map_of (zip ''ABCDEFGHIJKLMNOPQRSTUVWXYZ'' ''abcdefghijklmnopqrstuvwxyz'') c of
        Some d \<Rightarrow> d
      | None \<Rightarrow> c)"

definition lower :: "string \<Rightarrow> string" where
  "lower s = map lower_char s"

definition endswith :: "string \<Rightarrow> string list \<Rightarrow> bool" where
  "endswith s sufs = list_ex (\<lambda>suf. length suf \<le> length s \<and> drop (length s - length suf) s = suf) sufs"

definition lstrip :: "char \<Rightarrow> string \<Rightarrow> string" where
  "lstrip c s = dropWhile (\<lambda>x. x = c) s"

text \<open>\<open>str.rfind\<close> for a single character: the index of its last occurrence, or \<open>-1\<close>.\<close>

definition rfind :: "char \<Rightarrow> string \<Rightarrow> int" where
  "rfind c s =
     (if c \<in> set s
      then int (length s) - 1 - int (length (takeWhile (\<lambda>x. x \<noteq> c) (rev s)))
      else - 1)"

text \<open>
  A \<open>pathlib.Path\<close> is the list of its components. \<open>name\<close>, \<open>suffix\<close>, \<open>stem\<close>,
  \<open>parent\<close>, \<open>/\<close> and \<open>relative_to\<close> follow \<open>pathlib\<close>: the suffix is the part of the
  final component from its last dot on, unless that dot is the first or the last
  character of the component.
\<close>

type_synonym path = "string list"

definition name :: "path \<Rightarrow> string" where
  "name p = (if p = [] then [] else last p)"

definition suffix :: "path \<Rightarrow> string" where
  "suffix p =
     (let n = name p; i = rfind CHR ''.'' n
      in if 0 < i \<and> i < int (length n) - 1 then drop (nat i) n else [])"

definition stem :: "path \<Rightarrow> string" where
  "stem p =
     (let n = name p; i = rfind CHR ''.'' n
      in if 0 < i \<and> i < int (length n) - 1 then take (nat i) n else n)"

definition parent :: "path \<Rightarrow> path" where
  "parent p = butlast p"

fun path_str :: "path \<Rightarrow> string" where
  "path_str [] = ''.''"
| "path_str [c] = c"
| "path_str (c # cs) = c @ ''/'' @ path_str cs"

section \<open>Errors and effects\<close>

text \<open>
  Every exception the script can end with, named by the place that raises it:
  \<open>UnsupportedFormat\<close> is the \<open>ValueError\<close> of \<open>load_graph\<close>, \<open>TemplateNotFound\<close> the
  \<open>FileNotFoundError\<close> of \<open>run\<close>, \<open>NotRelative\<close> the \<open>ValueError\<close> of
  \<open>Path.relative_to\<close>; \<open>ParseError\<close>, \<open>SerializationError\<close> and \<open>TemplateError\<close> carry
  whatever \<open>Graph.parse\<close>, \<open>Graph.serialize\<close> and the template engine raise,
  \<open>PrintError\<close> what \<open>print\<close> raises (a \<open>UnicodeEncodeError\<close> where standard output
  cannot encode the line), and \<open>OSError\<close> what \<open>mkdir\<close> and \<open>write_text\<close> raise.
\<close>

datatype error =
    UnsupportedFormat string
  | ParseError string
  | SerializationError string
  | TemplateError string
  | TemplateNotFound string
  | NotRelative string
  | PrintError string
  | OSError string

definition relative_to :: "path \<Rightarrow> path \<Rightarrow> error + path" where
  "relative_to p base =
     (if take (length base) p = base then Inr (drop (length base) p)
      else Inl (NotRelative (path_str p)))"

text \<open>
  The lines the driver prints, and what it does to the file system, in order. The line of
  an output file starts with U+2022 and the final line with U+2705; the other lines hold
  only the paths, the pattern and the count.
\<close>

datatype message =
    NoSourceFiles string path
  | Converting nat path string
  | FileLine path
  | OutputLine string path
  | Finished path

datatype effect =
    Print message
  | Mkdir path
  | WriteFile path string

type_synonym 'a res = "(error + 'a) \<times> effect list"

definition raise :: "error \<Rightarrow> 'a res" where
  "raise e = (Inl e, [])"

definition ret :: "'a \<Rightarrow> 'a res" where
  "ret x = (Inr x, [])"

text \<open>Sequencing: an exception ends the run, and what was written before it stays written.\<close>

definition bind_res :: "'a res \<Rightarrow> ('a \<Rightarrow> 'b res) \<Rightarrow> 'b res" where
  "bind_res m f =
     (case m of
        (Inl e, w) \<Rightarrow> (Inl e, w)
      | (Inr x, w) \<Rightarrow> (case f x of (r, w') \<Rightarrow> (r, w @ w')))"

section \<open>The triple graph\<close>

text \<open>
  An rdflib literal: its lexical form (\<open>str\<close>), its language tag, and the value of
  \<open>Literal.__bool__\<close>, which the script consults in \<open>if title_literal\<close> and
  \<open>if label_literal\<close>.
\<close>

record literal =
  lexical :: string
  language :: "string option"
  truth :: bool

datatype node = URIRef string | BNode string | Literal literal

fun node_str :: "node \<Rightarrow> string" where
  "node_str (URIRef u) = u"
| "node_str (BNode b) = b"
| "node_str (Literal l) = lexical l"

fun is_URIRef :: "node \<Rightarrow> bool" where
  "is_URIRef (URIRef u) = True"
| "is_URIRef n = False"

fun as_Literal :: "node \<Rightarrow> literal option" where
  "as_Literal (Literal l) = Some l"
| "as_Literal n = None"

type_synonym triple = "node \<times> node \<times> node"

type_synonym bindings = "(string \<times> string) list"

text \<open>
  A graph is its triples, in the order the store yields them, and the prefix table of its
  namespace manager: pairs of prefix and namespace, in the order of registration.
\<close>

record graph =
  triples :: "triple list"
  bindings :: bindings

definition RDF_type :: node where
  "RDF_type = URIRef ''http://www.w3.org/1999/02/22-rdf-syntax-ns#type''"

definition RDF_Property :: node where
  "RDF_Property = URIRef ''http://www.w3.org/1999/02/22-rdf-syntax-ns#Property''"

definition RDFS_label :: node where
  "RDFS_label = URIRef ''http://www.w3.org/2000/01/rdf-schema#label''"

definition RDFS_comment :: node where
  "RDFS_comment = URIRef ''http://www.w3.org/2000/01/rdf-schema#comment''"

definition RDFS_subClassOf :: node where
  "RDFS_subClassOf = URIRef ''http://www.w3.org/2000/01/rdf-schema#subClassOf''"

definition RDFS_subPropertyOf :: node where
  "RDFS_subPropertyOf = URIRef ''http://www.w3.org/2000/01/rdf-schema#subPropertyOf''"

definition RDFS_domain :: node where
  "RDFS_domain = URIRef ''http://www.w3.org/2000/01/rdf-schema#domain''"

definition RDFS_range :: node where
  "RDFS_range = URIRef ''http://www.w3.org/2000/01/rdf-schema#range''"

definition OWL_Ontology :: node where
  "OWL_Ontology = URIRef ''http://www.w3.org/2002/07/owl#Ontology''"

definition OWL_Class :: node where
  "OWL_Class = URIRef ''http://www.w3.org/2002/07/owl#Class''"

definition OWL_ObjectProperty :: node where
  "OWL_ObjectProperty = URIRef ''http://www.w3.org/2002/07/owl#ObjectProperty''"

definition OWL_DatatypeProperty :: node where
  "OWL_DatatypeProperty = URIRef ''http://www.w3.org/2002/07/owl#DatatypeProperty''"

definition OWL_inverseOf :: node where
  "OWL_inverseOf = URIRef ''http://www.w3.org/2002/07/owl#inverseOf''"

definition SKOS_definition :: node where
  "SKOS_definition = URIRef ''http://www.w3.org/2004/02/skos/core#definition''"

definition SKOS_example :: node where
  "SKOS_example = URIRef ''http://www.w3.org/2004/02/skos/core#example''"

definition DCTERMS_title :: node where
  "DCTERMS_title = URIRef ''http://purl.org/dc/terms/title''"

definition DCTERMS_description :: node where
  "DCTERMS_description = URIRef ''http://purl.org/dc/terms/description''"

text \<open>\<open>Graph.subjects(p, o)\<close>, \<open>Graph.objects(s, p)\<close> and \<open>(s, p, o) in g\<close>.\<close>

definition subjects :: "graph \<Rightarrow> node \<Rightarrow> node \<Rightarrow> node list" where
  "subjects g p ob = map fst (filter (\<lambda>(s', p', o'). p' = p \<and> o' = ob) (triples g))"

definition objects :: "graph \<Rightarrow> node \<Rightarrow> node \<Rightarrow> node list" where
  "objects g s p = map (\<lambda>(s', p', o'). o') (filter (\<lambda>(s', p', o'). s' = s \<and> p' = p) (triples g))"

definition contains :: "graph \<Rightarrow> triple \<Rightarrow> bool" where
  "contains g t = (t \<in> set (triples g))"

section \<open>What the script takes from rdflib, Jinja2 and the run-time system\<close>

text \<open>
  The script is glue over the graph library, the template engine and the file system.
  Their behaviour is a parameter of the model, one field for each call the script makes:
  \<^item> \<open>normalizeUri\<close>, \<open>compute_qname\<close> and \<open>bind\<close> (called with \<open>replace=False\<close>) of the
    namespace manager, each given the prefix table; \<open>Inl\<close> is an exception, and
    \<open>compute_qname\<close> and \<open>bind\<close> return the table they leave behind;
  \<^item> \<open>set_iter\<close>: the order in which a Python \<open>set\<close> built from the given sequence of
    nodes is iterated;
  \<^item> \<open>str_lower\<close>: \<open>str.lower\<close>;
  \<^item> \<open>parse\<close>: \<open>Graph.parse\<close> into a fresh \<open>Graph()\<close>, by format name;
  \<^item> \<open>serialize\<close>: \<open>Graph.serialize\<close> to a destination, by format name: the exception
    it raises, if any, and what it leaves in the destination file, if it got as far as
    creating it;
  \<^item> \<open>get_template\<close>, \<open>render\<close>: the template engine;
  \<^item> \<open>exists\<close>, \<open>rglob\<close>: \<open>Path.exists\<close>, and the files under a directory that match a
    pattern, each as its path relative to that directory;
  \<^item> \<open>stdout\<close>: the exception \<open>print\<close> raises on a line, if any;
  \<^item> \<open>mkdirs\<close>: \<open>Path.mkdir(parents=True, exist_ok=True)\<close>: the exception it raises, if
    any, and the directories it created;
  \<^item> \<open>write_file\<close>: \<open>Path.write_text\<close>: the exception it raises, if any, and what it
    leaves in the file, if it got as far as creating it.
\<close>

record OntologyHeader =
  h_iri :: "string option"
  h_title :: "string option"
  h_description :: "string option"

record ClassInfo =
  c_iri :: string
  c_qname :: string
  c_label :: string
  c_definitions :: "literal list"
  c_comments :: "literal list"
  c_examples :: "literal list"
  c_subClassOf :: "string list"

record PropertyInfo =
  p_iri :: string
  p_qname :: string
  p_label :: string
  p_kind :: string
  p_comments :: "literal list"
  p_domain :: "string list"
  p_range :: "string list"
  p_subPropertyOf :: "string list"
  p_inverses :: "string list"

record template_vars =
  v_ontology :: OntologyHeader
  v_classes :: "ClassInfo list"
  v_properties :: "PropertyInfo list"
  v_prefixes :: "(string \<times> string) list"
  v_base_name :: string
  v_source_path :: path

record env =
  normalizeUri :: "bindings \<Rightarrow> node \<Rightarrow> string + string"
  compute_qname :: "bindings \<Rightarrow> node \<Rightarrow> string + ((string option \<times> string \<times> string) \<times> bindings)"
  bind :: "string \<Rightarrow> string \<Rightarrow> bindings \<Rightarrow> string + bindings"
  set_iter :: "node list \<Rightarrow> node list"
  str_lower :: "string \<Rightarrow> string"
  parse :: "path \<Rightarrow> string \<Rightarrow> string + graph"
  serialize :: "graph \<Rightarrow> path \<Rightarrow> string \<Rightarrow> string option \<times> string option"
  get_template :: "path \<Rightarrow> string + string"
  render :: "string \<Rightarrow> template_vars \<Rightarrow> string + string"
  exists :: "path \<Rightarrow> bool"
  rglob :: "path \<Rightarrow> string \<Rightarrow> path list"
  stdout :: "message \<Rightarrow> string option"
  mkdirs :: "path \<Rightarrow> string option \<times> path list"
  write_file :: "path \<Rightarrow> string \<Rightarrow> string option \<times> string option"

text \<open>A Python set holds each element once, whatever the order of its iteration.\<close>

definition set_iter_ok :: "env \<Rightarrow> bool" where
  "set_iter_ok e = (\<forall>xs. set (set_iter e xs) = set xs \<and> distinct (set_iter e xs))"

text \<open>
  \<open>print\<close>, \<open>mkdir\<close> and \<open>write_text\<close> as the script calls them: each may raise, and
  leaves behind what it did until then.
\<close>

definition print_line :: "env \<Rightarrow> message \<Rightarrow> unit res" where
  "print_line e m =
     (case stdout e m of
        Some x \<Rightarrow> (Inl (PrintError x), [])
      | None \<Rightarrow> (Inr (), [Print m]))"

definition mkdir :: "env \<Rightarrow> path \<Rightarrow> unit res" where
  "mkdir e p =
     (case mkdirs e p of
        (Some x, made) \<Rightarrow> (Inl (OSError x), map Mkdir made)
      | (None, made) \<Rightarrow> (Inr (), map Mkdir made))"

text \<open>Standard output accepts every line.\<close>

definition stdout_ok :: "env \<Rightarrow> bool" where
  "stdout_ok e = (\<forall>m. stdout e m = None)"

text \<open>What a call that writes a file leaves behind, and how it ends.\<close>

definition written :: "path \<Rightarrow> (string \<Rightarrow> error) \<Rightarrow> string option \<times> string option \<Rightarrow> unit res" where
  "written destination err outcome =
     (case outcome of
        (raised, left) \<Rightarrow>
          ((case raised of Some x \<Rightarrow> Inl (err x) | None \<Rightarrow> Inr ()),
           (case left of Some text \<Rightarrow> [WriteFile destination text] | None \<Rightarrow> [])))"

definition write_text :: "env \<Rightarrow> path \<Rightarrow> string \<Rightarrow> unit res" where
  "write_text e p text = written p OSError (write_file e p text)"

section \<open>Graph Loader: format detection and prefixes\<close>

definition FORMAT_BY_EXT :: "(string \<times> string) list" where
  "FORMAT_BY_EXT =
     [(''.ttl'', ''turtle''),
      (''.jsonld'', ''json-ld''),
      (''.json'', ''json-ld''),
      (''.owl'', ''xml''),
      (''.rdf'', ''xml''),
      (''.xml'', ''xml'')]"

definition ensure_default_prefix :: "env \<Rightarrow> graph \<Rightarrow> string option \<Rightarrow> graph" where
  "ensure_default_prefix e g ontology_iri =
     (case ontology_iri of
        None \<Rightarrow> g
      | Some i \<Rightarrow>
          (if i = [] then g
           else
             (let base_ns = (if \<not> endswith i [''#'', ''/''] then i @ ''#'' else i)
              in (case bind e [] base_ns (bindings g) of
                    Inr b \<Rightarrow> g\<lparr>bindings := b\<rparr>
                  | Inl x \<Rightarrow> g))))"

definition common :: "(string \<times> string) list" where
  "common =
     [(''rdf'', ''http://www.w3.org/1999/02/22-rdf-syntax-ns#''),
      (''rdfs'', ''http://www.w3.org/2000/01/rdf-schema#''),
      (''owl'', ''http://www.w3.org/2002/07/owl#''),
      (''skos'', ''http://www.w3.org/2004/02/skos/core#''),
      (''dcterms'', ''http://purl.org/dc/terms/'')]"

definition ensure_common_prefixes :: "env \<Rightarrow> graph \<Rightarrow> graph" where
  "ensure_common_prefixes e g =
     fold (\<lambda>(pref, ns) g'.
             case bind e pref ns (bindings g') of
               Inr b \<Rightarrow> g'\<lparr>bindings := b\<rparr>
             | Inl x \<Rightarrow> g')
          common g"

section \<open>Metadata Extractor\<close>

fun first_preferred :: "(string option \<rightharpoonup> literal) \<Rightarrow> string list \<Rightarrow> literal option" where
  "first_preferred by_lang [] = None"
| "first_preferred by_lang (lang # rest) =
     (case by_lang (Some lang) of
        Some v \<Rightarrow> Some v
      | None \<Rightarrow> first_preferred by_lang rest)"

text \<open>
  The dictionary \<open>by_lang\<close> is filled in list order, so a later literal replaces an
  earlier one of the same language. Every element of the list is a \<open>Literal\<close> by its
  type, so the \<open>isinstance\<close> test of the comprehension keeps them all.
\<close>

definition by_lang_add :: "literal \<Rightarrow> (string option \<rightharpoonup> literal) \<Rightarrow> (string option \<rightharpoonup> literal)" where
  "by_lang_add v m = m(language v \<mapsto> v)"

definition literal_by_lang :: "literal list \<Rightarrow> string list option \<Rightarrow> literal option \<times> literal list" where
  "literal_by_lang vals preferred =
     (let preferred' = (case preferred of
                          None \<Rightarrow> [''en'']
                        | Some ps \<Rightarrow> if ps = [] then [''en''] else ps);
          by_lang = fold by_lang_add vals Map.empty
      in case first_preferred by_lang preferred' of
           Some v \<Rightarrow> (Some v, vals)
         | None \<Rightarrow> ((case vals of [] \<Rightarrow> None | v # rest \<Rightarrow> Some v), vals))"

definition qname :: "env \<Rightarrow> graph \<Rightarrow> node \<Rightarrow> string" where
  "qname e g t =
     (case normalizeUri e (bindings g) t of
        Inr q \<Rightarrow> q
      | Inl x \<Rightarrow> node_str t)"

text \<open>
  \<open>q\<close> is a prefixed form of \<open>t\<close> under the table \<open>b\<close>: the prefix of a registered namespace
  that the identifier starts with, a colon, and the rest of the identifier. A namespace
  manager resolves the terms of \<open>matching\<close> when its \<open>normalizeUri\<close> returns such a form
  for each of them; \<open>ns_matches\<close> is the plainest notion of matching.
\<close>

definition prefixed_form :: "bindings \<Rightarrow> node \<Rightarrow> string \<Rightarrow> bool" where
  "prefixed_form b t q =
     list_ex (\<lambda>(pref, ns). take (length ns) (node_str t) = ns
                            \<and> q = pref @ '':'' @ drop (length ns) (node_str t)) b"

definition ns_matches :: "bindings \<Rightarrow> node \<Rightarrow> bool" where
  "ns_matches b t = list_ex (\<lambda>(pref, ns). take (length ns) (node_str t) = ns) b"

definition resolves :: "env \<Rightarrow> (bindings \<Rightarrow> node \<Rightarrow> bool) \<Rightarrow> bool" where
  "resolves e matching =
     (\<forall>b t. matching b t \<longrightarrow> (\<exists>q. normalizeUri e b t = Inr q \<and> prefixed_form b t q))"

definition get_literals :: "graph \<Rightarrow> node \<Rightarrow> node \<Rightarrow> literal list" where
  "get_literals g s p = List.map_filter as_Literal (objects g s p)"

text \<open>\<open>str(x) if x else None\<close> for an optional literal \<open>x\<close>.\<close>

definition str_if_true :: "literal option \<Rightarrow> string option" where
  "str_if_true x =
     (case x of
        None \<Rightarrow> None
      | Some l \<Rightarrow> if truth l then Some (lexical l) else None)"

definition collect_ontology_info :: "graph \<Rightarrow> OntologyHeader" where
  "collect_ontology_info g =
     (case subjects g RDF_type OWL_Ontology of
        [] \<Rightarrow> \<lparr>h_iri = None, h_title = None, h_description = None\<rparr>
      | ont # others \<Rightarrow>
          \<lparr>h_iri = Some (node_str ont),
           h_title = str_if_true (fst (literal_by_lang (get_literals g ont DCTERMS_title) None)),
           h_description =
             str_if_true (fst (literal_by_lang (get_literals g ont DCTERMS_description) None))\<rparr>)"

definition display_label :: "env \<Rightarrow> graph \<Rightarrow> node \<Rightarrow> string" where
  "display_label e g s =
     (case str_if_true (fst (literal_by_lang (get_literals g s RDFS_label) None)) of
        Some l \<Rightarrow> l
      | None \<Rightarrow> qname e g s)"

text \<open>The body of the loop of \<open>collect_classes\<close>: the descriptor of one subject.\<close>

definition class_info :: "env \<Rightarrow> graph \<Rightarrow> node \<Rightarrow> ClassInfo" where
  "class_info e g s =
     \<lparr>c_iri = node_str s,
      c_qname = qname e g s,
      c_label = display_label e g s,
      c_definitions = get_literals g s SKOS_definition,
      c_comments = get_literals g s RDFS_comment,
      c_examples = get_literals g s SKOS_example,
      c_subClassOf = map (qname e g) (filter is_URIRef (objects g s RDFS_subClassOf))\<rparr>"

text \<open>The sort key \<open>(x.label.lower(), x.qname)\<close>.\<close>

definition class_key :: "env \<Rightarrow> ClassInfo \<Rightarrow> string \<times> string" where
  "class_key e x = (str_lower e (c_label x), c_qname x)"

definition collect_classes :: "env \<Rightarrow> graph \<Rightarrow> ClassInfo list" where
  "collect_classes e g =
     sort_key (class_key e) (map (class_info e g) (set_iter e (subjects g RDF_type OWL_Class)))"

definition property_kind :: "graph \<Rightarrow> node \<Rightarrow> string" where
  "property_kind g t =
     (if contains g (t, RDF_type, OWL_ObjectProperty) then ''ObjectProperty''
      else if contains g (t, RDF_type, OWL_DatatypeProperty) then ''DatatypeProperty''
      else ''Property'')"

definition inverses_set :: "env \<Rightarrow> graph \<Rightarrow> node \<Rightarrow> node list" where
  "inverses_set e g s =
     set_iter e (filter is_URIRef (objects g s OWL_inverseOf)
                 @ filter is_URIRef (subjects g OWL_inverseOf s))"

text \<open>The body of the loop of \<open>collect_properties\<close>.\<close>

definition property_info :: "env \<Rightarrow> graph \<Rightarrow> node \<Rightarrow> PropertyInfo" where
  "property_info e g s =
     \<lparr>p_iri = node_str s,
      p_qname = qname e g s,
      p_label = display_label e g s,
      p_kind = property_kind g s,
      p_comments = get_literals g s RDFS_comment,
      p_domain = map (qname e g) (filter is_URIRef (objects g s RDFS_domain)),
      p_range = map (qname e g) (filter is_URIRef (objects g s RDFS_range)),
      p_subPropertyOf = map (qname e g) (filter is_URIRef (objects g s RDFS_subPropertyOf)),
      p_inverses = map (qname e g) (sort_key (qname e g) (inverses_set e g s))\<rparr>"

definition property_key :: "env \<Rightarrow> PropertyInfo \<Rightarrow> string \<times> string" where
  "property_key e x = (str_lower e (p_label x), p_qname x)"

definition props :: "env \<Rightarrow> graph \<Rightarrow> node list" where
  "props e g =
     set_iter e (subjects g RDF_type OWL_ObjectProperty
                 @ subjects g RDF_type OWL_DatatypeProperty
                 @ subjects g RDF_type RDF_Property)"

definition collect_properties :: "env \<Rightarrow> graph \<Rightarrow> PropertyInfo list" where
  "collect_properties e g = sort_key (property_key e) (map (property_info e g) (props e g))"

section \<open>Prefix Resolver\<close>

definition used_step :: "env \<Rightarrow> node \<Rightarrow> string list \<times> bindings \<Rightarrow> string list \<times> bindings" where
  "used_step e t st =
     (case st of
        (used, b) \<Rightarrow>
          if is_URIRef t then
            (case compute_qname e b t of
               Inr ((prefix, ns, local), b') \<Rightarrow>
                 (case prefix of Some p \<Rightarrow> (p # used, b') | None \<Rightarrow> (used, b'))
             | Inl x \<Rightarrow> (used, b))
          else (used, b))"

definition compute_used_prefixes :: "env \<Rightarrow> graph \<Rightarrow> (string \<times> string) list" where
  "compute_used_prefixes e g =
     (case fold (used_step e) (concat (map (\<lambda>(s, p, ob). [s, p, ob]) (triples g))) ([], bindings g) of
        (used, b) \<Rightarrow>
          sort_key fst
            (map (\<lambda>(prefix, ns). (if prefix = [] then '':'' else prefix, ns))
                 (filter (\<lambda>(prefix, ns). prefix \<in> set used) b)))"

section \<open>Graph Loader\<close>

text \<open>\<open>fmt\<close> is the value \<open>FORMAT_BY_EXT.get(path.suffix.lower())\<close> of \<open>load_graph\<close>.\<close>

definition fmt :: "path \<Rightarrow> string option" where
  "fmt p = map_of FORMAT_BY_EXT (lower (suffix p))"

text \<open>The statements of \<open>load_graph\<close> that follow the parse.\<close>

definition register_prefixes :: "env \<Rightarrow> graph \<Rightarrow> graph" where
  "register_prefixes e g =
     (let g' = ensure_common_prefixes e g;
          header = collect_ontology_info g'
      in ensure_default_prefix e g' (h_iri header))"

definition load_graph :: "env \<Rightarrow> path \<Rightarrow> error + graph" where
  "load_graph e p =
     (case fmt p of
        None \<Rightarrow> Inl (UnsupportedFormat (path_str p))
      | Some f \<Rightarrow>
          (case parse e p f of
             Inl x \<Rightarrow> Inl (ParseError x)
           | Inr g \<Rightarrow> Inr (register_prefixes e g)))"

section \<open>Catalogue Renderer and Serializer\<close>

definition render_html :: "env \<Rightarrow> graph \<Rightarrow> string \<Rightarrow> path \<Rightarrow> path \<Rightarrow> path \<Rightarrow> unit res" where
  "render_html e g base template_path output_path source =
     (case get_template e template_path of
        Inl x \<Rightarrow> raise (TemplateError x)
      | Inr tmpl \<Rightarrow>
          (case render e tmpl
                  \<lparr>v_ontology = collect_ontology_info g,
                   v_classes = collect_classes e g,
                   v_properties = collect_properties e g,
                   v_prefixes = compute_used_prefixes e g,
                   v_base_name = base,
                   v_source_path = source\<rparr> of
             Inl x \<Rightarrow> raise (TemplateError x)
           | Inr html \<Rightarrow>
               bind_res (mkdir e (parent output_path))
                 (\<lambda>u. write_text e output_path html)))"

definition serialize_to :: "env \<Rightarrow> graph \<Rightarrow> path \<Rightarrow> string \<Rightarrow> unit res" where
  "serialize_to e g destination format =
     written destination SerializationError (serialize e g destination format)"

definition serialise_graph :: "env \<Rightarrow> graph \<Rightarrow> path \<Rightarrow> string \<Rightarrow> (string \<times> path) list res" where
  "serialise_graph e g dest_dir base =
     (let ttl = dest_dir @ [base @ ''.ttl''];
          jsonld = dest_dir @ [base @ ''.jsonld''];
          owl = dest_dir @ [base @ ''.owl'']
      in bind_res (mkdir e dest_dir) (\<lambda>u.
         bind_res (serialize_to e g ttl ''turtle'') (\<lambda>u.
         bind_res (serialize_to e g jsonld ''json-ld'') (\<lambda>u.
         bind_res (serialize_to e g owl ''xml'') (\<lambda>u.
         ret [(''ttl'', ttl), (''jsonld'', jsonld), (''owl'', owl)])))))"

section \<open>Pipeline Driver\<close>

definition convert_file :: "env \<Rightarrow> path \<Rightarrow> path \<Rightarrow> path \<Rightarrow> path \<Rightarrow> (string \<times> path) list res" where
  "convert_file e p source_dir deployment_dir template_path =
     (case load_graph e p of
        Inl x \<Rightarrow> raise x
      | Inr g \<Rightarrow>
          (case relative_to p source_dir of
             Inl x \<Rightarrow> raise x
           | Inr relative \<Rightarrow>
               (let base = stem relative;
                    dest_dir = deployment_dir @ parent relative;
                    html_path = dest_dir @ [base @ ''.html'']
                in bind_res (serialise_graph e g dest_dir base) (\<lambda>serialised.
                   bind_res (render_html e g base template_path html_path relative) (\<lambda>u.
                   ret (serialised @ [(''html'', html_path)]))))))"

fun print_outputs :: "env \<Rightarrow> path \<Rightarrow> (string \<times> path) list \<Rightarrow> unit res" where
  "print_outputs e deployment_dir [] = ret ()"
| "print_outputs e deployment_dir ((label, out_path) # rest) =
     (case relative_to out_path deployment_dir of
        Inl x \<Rightarrow> raise x
      | Inr r \<Rightarrow>
          bind_res (print_line e (OutputLine label r)) (\<lambda>u. print_outputs e deployment_dir rest))"

text \<open>The \<open>for path in source_files\<close> loop of \<open>run\<close>.\<close>

fun convert_all :: "env \<Rightarrow> path \<Rightarrow> path \<Rightarrow> path \<Rightarrow> path list \<Rightarrow> unit res" where
  "convert_all e source_dir deployment_dir template_path [] = ret ()"
| "convert_all e source_dir deployment_dir template_path (p # rest) =
     (case relative_to p source_dir of
        Inl x \<Rightarrow> raise x
      | Inr r \<Rightarrow>
          bind_res (print_line e (FileLine r)) (\<lambda>u.
          bind_res (convert_file e p source_dir deployment_dir template_path) (\<lambda>outputs.
          bind_res (print_outputs e deployment_dir outputs) (\<lambda>u.
          convert_all e source_dir deployment_dir template_path rest))))"

text \<open>
  The parsed command line, paths already resolved. \<open>run\<close> returns the exit status, or the
  exception it ends with, and the effects up to there.
\<close>

record args =
  a_source_dir :: path
  a_deployment_dir :: path
  a_basis :: string
  a_template :: path

definition source_files :: "env \<Rightarrow> path \<Rightarrow> string \<Rightarrow> path list" where
  "source_files e source_dir basis_pattern =
     sort (map (\<lambda>r. source_dir @ r) (rglob e source_dir basis_pattern))"

definition run :: "env \<Rightarrow> args \<Rightarrow> int res" where
  "run e a =
     (let source_dir = a_source_dir a;
          deployment_dir = a_deployment_dir a;
          basis = str_lower e (lstrip CHR ''.'' (a_basis a));
          template_path = a_template a
      in if \<not> exists e template_path then raise (TemplateNotFound (path_str template_path))
         else
           (let basis_pattern = ''*.'' @ basis;
                files = source_files e source_dir basis_pattern
            in if files = [] then
                 bind_res (print_line e (NoSourceFiles basis_pattern source_dir)) (\<lambda>u. ret 1)
               else
                 bind_res (print_line e (Converting (length files) source_dir basis)) (\<lambda>u.
                 bind_res (mkdir e deployment_dir) (\<lambda>u.
                 bind_res (convert_all e source_dir deployment_dir template_path files) (\<lambda>u.
                 bind_res (print_line e (Finished deployment_dir)) (\<lambda>u.
                 ret 0))))))"

section \<open>The prefix table\<close>

text \<open>
  Modelled from the spec: the prefix table of rdflib's namespace manager, which is not part
  of the script. "Namespace binding is a simple ordered mapping with first-write-wins
  semantics"; registration "only adds bindings, never removes or overwrites existing
  ones", and a conflict is "silently skipped (first registration wins)".
\<close>

definition bind_first :: "string \<Rightarrow> string \<Rightarrow> bindings \<Rightarrow> string + bindings" where
  "bind_first pref ns b = Inr (if map_of b pref = None then b @ [(pref, ns)] else b)"

section \<open>Example inputs\<close>

text \<open>
  A namespace manager for the examples. Its \<open>normalizeUri\<close> gives the prefixed form under
  the first bound namespace the term starts with and, as rdflib's does for a term under no
  bound namespace, the term in angle brackets; it raises nothing.
\<close>

definition n3_normalizeUri :: "bindings \<Rightarrow> node \<Rightarrow> string + string" where
  "n3_normalizeUri b t =
     (case find (\<lambda>(pref, ns). take (length ns) (node_str t) = ns) b of
        Some (pref, ns) \<Rightarrow> Inr (pref @ '':'' @ drop (length ns) (node_str t))
      | None \<Rightarrow> Inr (''<'' @ node_str t @ ''>''))"

definition n3_compute_qname ::
    "bindings \<Rightarrow> node \<Rightarrow> string + ((string option \<times> string \<times> string) \<times> bindings)" where
  "n3_compute_qname b t =
     (case find (\<lambda>(pref, ns). take (length ns) (node_str t) = ns) b of
        Some (pref, ns) \<Rightarrow> Inr ((Some pref, ns, drop (length ns) (node_str t)), b)
      | None \<Rightarrow> Inl ''no namespace'')"

text \<open>
  The spec's end-to-end scenario: an ontology titled "Example" in English, a class
  \<open>ex:Animal\<close> labelled "Animal", an object property \<open>ex:hasParent\<close> with inverse
  \<open>ex:hasChild\<close>.
\<close>

definition ex_ont :: node where
  "ex_ont = URIRef ''http://e.org/o''"

definition ex_Animal :: node where
  "ex_Animal = URIRef ''http://e.org/o#Animal''"

definition ex_hasParent :: node where
  "ex_hasParent = URIRef ''http://e.org/o#hasParent''"

definition ex_hasChild :: node where
  "ex_hasChild = URIRef ''http://e.org/o#hasChild''"

definition ex_graph :: graph where
  "ex_graph =
     \<lparr>triples =
        [(ex_ont, RDF_type, OWL_Ontology),
         (ex_ont, DCTERMS_title, Literal \<lparr>lexical = ''Example'', language = Some ''en'', truth = True\<rparr>),
         (ex_Animal, RDF_type, OWL_Class),
         (ex_Animal, RDFS_label, Literal \<lparr>lexical = ''Animal'', language = Some ''en'', truth = True\<rparr>),
         (ex_hasParent, RDF_type, OWL_ObjectProperty),
         (ex_hasParent, OWL_inverseOf, ex_hasChild)],
      bindings = [(''ex'', ''http://e.org/o#'')]\<rparr>"

definition ex_env :: env where
  "ex_env =
     \<lparr>normalizeUri = n3_normalizeUri,
      compute_qname = n3_compute_qname,
      bind = bind_first,
      set_iter = remdups,
      str_lower = lower,
      parse = (\<lambda>p f. Inr ex_graph),
      serialize = (\<lambda>g d f. (None, Some f)),
      get_template = (\<lambda>p. Inr ''template''),
      render = (\<lambda>t v. Inr ''html''),
      exists = (\<lambda>p. True),
      rglob = (\<lambda>d pat. if pat = ''*.ttl'' then [[''animals.ttl'']] else []),
      stdout = (\<lambda>m. None),
      mkdirs = (\<lambda>p. (None, [p])),
      write_file = (\<lambda>p text. (None, Some text))\<rparr>"

definition lit_en :: literal where
  "lit_en = \<lparr>lexical = ''Example'', language = Some ''en'', truth = True\<rparr>"

definition lit_fr :: literal where
  "lit_fr = \<lparr>lexical = ''Exemple'', language = Some ''fr'', truth = True\<rparr>"

definition lit_de :: literal where
  "lit_de = \<lparr>lexical = ''Beispiel'', language = Some ''de'', truth = True\<rparr>"

text \<open>A subject asserted only as a generic property.\<close>

definition generic_graph :: graph where
  "generic_graph = \<lparr>triples = [(ex_hasChild, RDF_type, RDF_Property)], bindings = []\<rparr>"

text \<open>A subject asserted both as a class and as an object property.\<close>

definition both_graph :: graph where
  "both_graph =
     \<lparr>triples = [(ex_Animal, RDF_type, OWL_Class), (ex_Animal, RDF_type, OWL_ObjectProperty)],
      bindings = [(''ex'', ''http://e.org/o#'')]\<rparr>"

text \<open>The same environment with a namespace manager whose \<open>normalizeUri\<close> always raises.\<close>

definition raising_env :: env where
  "raising_env = ex_env\<lparr>normalizeUri := (\<lambda>b t. Inl ''unavailable'')\<rparr>"

text \<open>Two classes, \<open>ex:Zebra\<close> without a label and \<open>ex:Animal\<close> labelled "animal".\<close>

definition ex_Zebra :: node where
  "ex_Zebra = URIRef ''http://e.org/o#Zebra''"

definition classes_graph :: graph where
  "classes_graph =
     \<lparr>triples =
        [(ex_Zebra, RDF_type, OWL_Class),
         (ex_Animal, RDF_type, OWL_Class),
         (ex_Animal, RDFS_label, Literal \<lparr>lexical = ''animal'', language = None, truth = True\<rparr>)],
      bindings = [(''ex'', ''http://e.org/o#'')]\<rparr>"

text \<open>Sets iterated in the opposite order.\<close>

definition rev_iter :: "node list \<Rightarrow> node list" where
  "rev_iter xs = rev (remdups xs)"


text \<open>
  A blank node asserted as an object property and as the inverse of \<open>ex:hasParent\<close>.
\<close>

definition bnode_graph :: graph where
  "bnode_graph =
     \<lparr>triples =
        [(BNode ''b'', RDF_type, OWL_ObjectProperty),
         (BNode ''b'', OWL_inverseOf, ex_hasParent),
         (ex_hasParent, RDF_type, OWL_ObjectProperty)],
      bindings = [(''ex'', ''http://e.org/o#'')]\<rparr>"

text \<open>
  A standard output that encodes ASCII only: \<open>print\<close> raises \<open>UnicodeEncodeError\<close> on any
  line with a character outside ASCII, so on every line of an output file and on the
  final line.
\<close>

definition is_ascii :: "string \<Rightarrow> bool" where
  "is_ascii s = list_all (\<lambda>c. \<not> digit7 c) s"

definition ascii_stdout :: "message \<Rightarrow> string option" where
  "ascii_stdout m =
     (case m of
        NoSourceFiles pat d \<Rightarrow>
          if is_ascii pat \<and> list_all is_ascii d then None else Some ''UnicodeEncodeError''
      | Converting n d b \<Rightarrow>
          if list_all is_ascii d \<and> is_ascii b then None else Some ''UnicodeEncodeError''
      | FileLine p \<Rightarrow> if list_all is_ascii p then None else Some ''UnicodeEncodeError''
      | OutputLine label p \<Rightarrow> Some ''UnicodeEncodeError''
      | Finished d \<Rightarrow> Some ''UnicodeEncodeError'')"

definition ascii_env :: env where
  "ascii_env = ex_env\<lparr>stdout := ascii_stdout\<rparr>"

text \<open>The command lines of the examples; the last source directory is named \<open>caf\<close>\<^emph>\<open>e-acute\<close>.\<close>

definition args_ttl :: args where
  "args_ttl =
     \<lparr>a_source_dir = [''src''], a_deployment_dir = [''dep''], a_basis = ''.TTL'',
      a_template = [''t.j2'']\<rparr>"

definition args_rdf :: args where
  "args_rdf =
     \<lparr>a_source_dir = [''src''], a_deployment_dir = [''dep''], a_basis = ''rdf'',
      a_template = [''t.j2'']\<rparr>"

definition args_accent :: args where
  "args_accent =
     \<lparr>a_source_dir = [[CHR ''c'', CHR ''a'', CHR ''f'', CHR 0xC3, CHR 0xA9]],
      a_deployment_dir = [''dep''], a_basis = ''rdf'', a_template = [''t.j2'']\<rparr>"

section \<open>Language-preferring literal selection\<close>

lemma by_lang_miss:
  "\<forall>v \<in> set vs. language v \<noteq> k \<Longrightarrow> fold by_lang_add vs m k = m k"
  by (induction vs arbitrary: m) (auto simp: by_lang_add_def)

lemma by_lang_hit:
  "\<exists>v \<in> set vs. language v = k \<Longrightarrow>
     \<exists>w \<in> set vs. language w = k \<and> fold by_lang_add vs m k = Some w"
proof (induction vs arbitrary: m)
  case Nil
  then show ?case by simp
next
  case (Cons v vs)
  show ?case
  proof (cases "\<exists>u \<in> set vs. language u = k")
    case True
    from Cons.IH [OF True, of "by_lang_add v m"] show ?thesis by auto
  next
    case False
    with Cons.prems have "language v = k" by auto
    moreover from False have "fold by_lang_add vs (by_lang_add v m) k = (by_lang_add v m) k"
      by (intro by_lang_miss) auto
    ultimately have "fold by_lang_add (v # vs) m k = Some v"
      by (simp add: by_lang_add_def)
    with \<open>language v = k\<close> show ?thesis
      by (intro bexI [of _ v]) simp_all
  qed
qed

lemma literal_by_lang_default:
  "fst (literal_by_lang vs None) =
     (case fold by_lang_add vs Map.empty (Some ''en'') of
        Some v \<Rightarrow> Some v
      | None \<Rightarrow> (case vs of [] \<Rightarrow> None | v # rest \<Rightarrow> Some v))"
  by (simp add: literal_by_lang_def split: option.splits)

text \<open>
  C1. Selection with the default preference: if some literal of the list is tagged \<open>en\<close>,
  a literal of the list tagged \<open>en\<close> is returned; if the list is not empty and none is
  tagged \<open>en\<close>, its first literal is returned; if the list is empty, nothing is returned.
  The list itself is handed back as the second component.
\<close>

theorem literal_by_lang_selection:
  "((\<exists>v \<in> set vs. language v = Some ''en'') \<longrightarrow>
      (\<exists>w \<in> set vs. language w = Some ''en'' \<and> fst (literal_by_lang vs None) = Some w))
   \<and> (vs \<noteq> [] \<and> (\<forall>v \<in> set vs. language v \<noteq> Some ''en'') \<longrightarrow>
        fst (literal_by_lang vs None) = Some (hd vs))
   \<and> (vs = [] \<longrightarrow> fst (literal_by_lang vs None) = None)
   \<and> snd (literal_by_lang vs None) = vs"
proof (intro conjI impI)
  assume "\<exists>v \<in> set vs. language v = Some ''en''"
  from by_lang_hit [OF this, of Map.empty]
  show "\<exists>w \<in> set vs. language w = Some ''en'' \<and> fst (literal_by_lang vs None) = Some w"
    by (auto simp: literal_by_lang_default)
next
  assume a: "vs \<noteq> [] \<and> (\<forall>v \<in> set vs. language v \<noteq> Some ''en'')"
  then have "fold by_lang_add vs Map.empty (Some ''en'') = None"
    by (simp add: by_lang_miss)
  with a show "fst (literal_by_lang vs None) = Some (hd vs)"
    by (cases vs) (simp_all add: literal_by_lang_default)
next
  assume "vs = []"
  then show "fst (literal_by_lang vs None) = None"
    by (simp add: literal_by_lang_default)
next
  show "snd (literal_by_lang vs None) = vs"
    by (simp add: literal_by_lang_def split: option.splits)
qed

theorem literal_by_lang_selection_witness:
  "(\<exists>v \<in> set [lit_fr, lit_en, lit_de]. language v = Some ''en'')
   \<and> fst (literal_by_lang [lit_fr, lit_en, lit_de] None) = Some lit_en
   \<and> [lit_fr, lit_de] \<noteq> []
   \<and> language lit_fr \<noteq> Some ''en'' \<and> language lit_de \<noteq> Some ''en''
   \<and> fst (literal_by_lang [lit_fr, lit_de] None) = Some lit_fr
   \<and> fst (literal_by_lang [] None) = None"
  using literal_by_lang_selection [of "[lit_fr, lit_en, lit_de]"]
        literal_by_lang_selection [of "[lit_fr, lit_de]"]
        literal_by_lang_selection [of "[]"]
  by (auto simp: lit_en_def lit_fr_def lit_de_def)

section \<open>Format detection\<close>

lemma fmt_cases:
  "fmt p =
     (if lower (suffix p) = ''.ttl'' then Some ''turtle''
      else if lower (suffix p) = ''.jsonld'' \<or> lower (suffix p) = ''.json'' then Some ''json-ld''
      else if lower (suffix p) = ''.owl'' \<or> lower (suffix p) = ''.rdf'' \<or> lower (suffix p) = ''.xml''
        then Some ''xml''
      else None)"
  by (simp add: fmt_def FORMAT_BY_EXT_def)

lemma load_graph_unsupported_iff:
  "(\<exists>x. load_graph e p = Inl (UnsupportedFormat x)) = (fmt p = None)"
  by (auto simp: load_graph_def split: option.splits sum.splits)

lemma load_graph_supported:
  "fmt p = Some f \<Longrightarrow>
     load_graph e p =
       (case parse e p f of Inl x \<Rightarrow> Inl (ParseError x) | Inr g \<Rightarrow> Inr (register_prefixes e g))"
  by (simp add: load_graph_def)

lemma suffix_upper: "suffix [''data'', ''Onto.TTL''] = ''.TTL''"
  by (simp add: suffix_def name_def rfind_def)

lemma suffix_lower: "suffix [''data'', ''animals.ttl''] = ''.ttl''"
  by (simp add: suffix_def name_def rfind_def)

lemma lower_TTL: "lower ''.TTL'' = ''.ttl''"
  by (simp add: lower_def lower_char_def)

lemma lower_ttl: "lower ''.ttl'' = ''.ttl''"
  by (simp add: lower_def lower_char_def)

lemma parse_ex_env: "parse ex_env p f = Inr ex_graph"
  by (simp add: ex_env_def)

text \<open>
  C4, as stated, at an upper-case extension: \<open>.TTL\<close> is not a key of the mapping, and
  the file is loaded all the same.
\<close>

theorem load_graph_exact_extension_counterexample:
  "map_of FORMAT_BY_EXT (suffix [''data'', ''Onto.TTL'']) = None
   \<and> load_graph ex_env [''data'', ''Onto.TTL''] = Inr (register_prefixes ex_env ex_graph)"
  by (simp add: suffix_upper FORMAT_BY_EXT_def load_graph_def fmt_def lower_TTL parse_ex_env)

text \<open>
  C4, amended. The parse format is a function of the lower-cased extension alone:
  \<open>.ttl\<close> gives \<open>turtle\<close>, \<open>.jsonld\<close> and \<open>.json\<close> give \<open>json-ld\<close>, \<open>.owl\<close>, \<open>.rdf\<close>
  and \<open>.xml\<close> give \<open>xml\<close>. \<open>load_graph\<close> fails with its unsupported-extension error
  exactly when the lower-cased extension is none of the six, and otherwise hands the file
  to the parser with that format.
\<close>

theorem load_graph_format_by_lowercased_extension:
  "fmt p =
     (if lower (suffix p) = ''.ttl'' then Some ''turtle''
      else if lower (suffix p) = ''.jsonld'' \<or> lower (suffix p) = ''.json'' then Some ''json-ld''
      else if lower (suffix p) = ''.owl'' \<or> lower (suffix p) = ''.rdf'' \<or> lower (suffix p) = ''.xml''
        then Some ''xml''
      else None)
   \<and> ((\<exists>x. load_graph e p = Inl (UnsupportedFormat x)) \<longleftrightarrow>
        lower (suffix p) \<notin> {''.ttl'', ''.jsonld'', ''.json'', ''.owl'', ''.rdf'', ''.xml''})
   \<and> (\<forall>f. fmt p = Some f \<longrightarrow>
          load_graph e p =
            (case parse e p f of
               Inl x \<Rightarrow> Inl (ParseError x)
             | Inr g \<Rightarrow> Inr (register_prefixes e g)))"
proof (intro conjI allI impI)
  show "fmt p =
     (if lower (suffix p) = ''.ttl'' then Some ''turtle''
      else if lower (suffix p) = ''.jsonld'' \<or> lower (suffix p) = ''.json'' then Some ''json-ld''
      else if lower (suffix p) = ''.owl'' \<or> lower (suffix p) = ''.rdf'' \<or> lower (suffix p) = ''.xml''
        then Some ''xml''
      else None)"
    by (rule fmt_cases)
next
  have "(fmt p = None) = (lower (suffix p) \<notin> {''.ttl'', ''.jsonld'', ''.json'', ''.owl'', ''.rdf'', ''.xml''})"
    by (simp add: fmt_cases)
  then show "(\<exists>x. load_graph e p = Inl (UnsupportedFormat x)) \<longleftrightarrow>
        lower (suffix p) \<notin> {''.ttl'', ''.jsonld'', ''.json'', ''.owl'', ''.rdf'', ''.xml''}"
    by (simp only: load_graph_unsupported_iff)
next
  fix f assume "fmt p = Some f"
  then show "load_graph e p =
            (case parse e p f of
               Inl x \<Rightarrow> Inl (ParseError x)
             | Inr g \<Rightarrow> Inr (register_prefixes e g))"
    by (rule load_graph_supported)
qed

theorem load_graph_format_by_lowercased_extension_witness:
  "fmt [''data'', ''animals.ttl''] = Some ''turtle''
   \<and> load_graph ex_env [''data'', ''animals.ttl''] = Inr (register_prefixes ex_env ex_graph)
   \<and> lower (suffix [''data'', ''notes.txt'']) \<notin> {''.ttl'', ''.jsonld'', ''.json'', ''.owl'', ''.rdf'', ''.xml''}
   \<and> (\<exists>x. load_graph ex_env [''data'', ''notes.txt''] = Inl (UnsupportedFormat x))"
proof -
  have t: "lower (suffix [''data'', ''notes.txt'']) = ''.txt''"
    by (simp add: suffix_def name_def rfind_def lower_def lower_char_def)
  show ?thesis
    using load_graph_format_by_lowercased_extension [of "[''data'', ''animals.ttl'']" ex_env]
          load_graph_format_by_lowercased_extension [of "[''data'', ''notes.txt'']" ex_env]
    by (simp add: suffix_lower lower_ttl parse_ex_env t)
qed

text \<open>
  C9. The extension is lower-cased before the mapping is consulted: two paths whose
  extensions differ only in case get the same format and are rejected or accepted alike,
  and a \<open>.TTL\<close> file is parsed as Turtle.
\<close>

theorem load_graph_extension_case_insensitive:
  "fmt p = map_of FORMAT_BY_EXT (lower (suffix p))
   \<and> (lower (suffix p) = lower (suffix q) \<longrightarrow>
        fmt p = fmt q
        \<and> ((\<exists>x. load_graph e p = Inl (UnsupportedFormat x)) \<longleftrightarrow>
            (\<exists>x. load_graph e q = Inl (UnsupportedFormat x))))
   \<and> (suffix p = ''.TTL'' \<longrightarrow>
        load_graph e p =
          (case parse e p ''turtle'' of
             Inl x \<Rightarrow> Inl (ParseError x)
           | Inr g \<Rightarrow> Inr (register_prefixes e g)))"
proof (intro conjI impI)
  show "fmt p = map_of FORMAT_BY_EXT (lower (suffix p))"
    by (simp add: fmt_def)
next
  assume "lower (suffix p) = lower (suffix q)"
  then show "fmt p = fmt q"
    by (simp add: fmt_def)
next
  assume "lower (suffix p) = lower (suffix q)"
  then have "fmt p = fmt q"
    by (simp add: fmt_def)
  then show "(\<exists>x. load_graph e p = Inl (UnsupportedFormat x)) \<longleftrightarrow>
            (\<exists>x. load_graph e q = Inl (UnsupportedFormat x))"
    by (simp only: load_graph_unsupported_iff)
next
  assume "suffix p = ''.TTL''"
  then have "fmt p = Some ''turtle''"
    by (simp add: fmt_cases lower_TTL)
  then show "load_graph e p =
          (case parse e p ''turtle'' of
             Inl x \<Rightarrow> Inl (ParseError x)
           | Inr g \<Rightarrow> Inr (register_prefixes e g))"
    by (rule load_graph_supported)
qed

theorem load_graph_extension_case_insensitive_witness:
  "lower (suffix [''data'', ''Onto.TTL'']) = lower (suffix [''data'', ''animals.ttl''])
   \<and> fmt [''data'', ''Onto.TTL''] = fmt [''data'', ''animals.ttl'']
   \<and> suffix [''data'', ''Onto.TTL''] = ''.TTL''
   \<and> load_graph ex_env [''data'', ''Onto.TTL''] = Inr (register_prefixes ex_env ex_graph)"
  using load_graph_extension_case_insensitive
          [of "[''data'', ''Onto.TTL'']" "[''data'', ''animals.ttl'']" ex_env]
  by (auto simp: suffix_upper suffix_lower lower_TTL lower_ttl parse_ex_env)

section \<open>Descriptors and the subjects they come from\<close>

lemma set_subjects: "set (subjects g p ob) = {s. (s, p, ob) \<in> set (triples g)}"
  by (auto simp: subjects_def image_iff)

lemma set_objects: "set (objects g s p) = {ob. (s, p, ob) \<in> set (triples g)}"
  by (auto simp: objects_def image_iff)

lemma set_iter_set: "set_iter_ok e \<Longrightarrow> set (set_iter e xs) = set xs"
  by (simp add: set_iter_ok_def)

lemma set_iter_distinct: "set_iter_ok e \<Longrightarrow> distinct (set_iter e xs)"
  by (simp add: set_iter_ok_def)

lemma set_iter_ok_remdups: "set_iter_ok ex_env"
  by (simp add: set_iter_ok_def ex_env_def)

lemma str_lower_ex_env: "str_lower ex_env = lower"
  by (simp add: ex_env_def)

lemma display_label_no_literal:
  "get_literals g s RDFS_label = [] \<Longrightarrow> display_label e g s = qname e g s"
  by (simp add: display_label_def literal_by_lang_def str_if_true_def)

lemma set_collect_classes:
  "set (collect_classes e g) = class_info e g ` set (set_iter e (subjects g RDF_type OWL_Class))"
  by (simp add: collect_classes_def)

lemma set_collect_properties:
  "set (collect_properties e g) = property_info e g ` set (props e g)"
  by (simp add: collect_properties_def)

lemma set_props:
  "set_iter_ok e \<Longrightarrow>
     set (props e g) =
       {s. contains g (s, RDF_type, OWL_ObjectProperty)
           \<or> contains g (s, RDF_type, OWL_DatatypeProperty)
           \<or> contains g (s, RDF_type, RDF_Property)}"
  by (auto simp: props_def set_iter_set set_subjects contains_def)

lemma p_kind_property_info: "p_kind (property_info e g s) = property_kind g s"
  by (simp add: property_info_def)

lemma property_kind_tags:
  "property_kind g s \<in> {''ObjectProperty'', ''DatatypeProperty'', ''Property''}"
  by (simp add: property_kind_def)

text \<open>
  C3, as stated, at a subject asserted only as \<open>rdf:Property\<close>: its kind tag is the string
  \<open>Property\<close>, which is none of \<open>ObjectProperty\<close>, \<open>DatatypeProperty\<close>, \<open>GenericProperty\<close>.
\<close>

theorem property_kind_generic_counterexample:
  "map p_kind (collect_properties ex_env generic_graph) = [''Property'']
   \<and> ''Property'' \<notin> {''ObjectProperty'', ''DatatypeProperty'', ''GenericProperty''}"
  by (simp add: collect_properties_def props_def subjects_def generic_graph_def ex_env_def
        p_kind_property_info property_kind_def contains_def
        RDF_type_def RDF_Property_def OWL_ObjectProperty_def OWL_DatatypeProperty_def ex_hasChild_def)

text \<open>
  C3, amended. Every descriptor of the property list belongs to a collected subject, and
  its kind tag is one of \<open>ObjectProperty\<close>, \<open>DatatypeProperty\<close>, \<open>Property\<close>: the first if the
  subject has an \<open>owl:ObjectProperty\<close> type assertion, else the second if it has an
  \<open>owl:DatatypeProperty\<close> one, else the generic tag \<open>Property\<close>.
\<close>

theorem property_kind_resolution:
  "(\<forall>d \<in> set (collect_properties e g).
      \<exists>s \<in> set (props e g).
        d = property_info e g s
        \<and> p_kind d \<in> {''ObjectProperty'', ''DatatypeProperty'', ''Property''}
        \<and> p_kind d =
            (if contains g (s, RDF_type, OWL_ObjectProperty) then ''ObjectProperty''
             else if contains g (s, RDF_type, OWL_DatatypeProperty) then ''DatatypeProperty''
             else ''Property''))"
proof
  fix d assume "d \<in> set (collect_properties e g)"
  then obtain s where s: "s \<in> set (props e g)" and d: "d = property_info e g s"
    by (auto simp: set_collect_properties)
  have "p_kind d = property_kind g s"
    by (simp add: d p_kind_property_info)
  with s d show "\<exists>s \<in> set (props e g).
        d = property_info e g s
        \<and> p_kind d \<in> {''ObjectProperty'', ''DatatypeProperty'', ''Property''}
        \<and> p_kind d =
            (if contains g (s, RDF_type, OWL_ObjectProperty) then ''ObjectProperty''
             else if contains g (s, RDF_type, OWL_DatatypeProperty) then ''DatatypeProperty''
             else ''Property'')"
    by (intro bexI [of _ s]) (simp_all add: property_kind_def)
qed

lemma collect_properties_ex:
  "collect_properties ex_env ex_graph = [property_info ex_env ex_graph ex_hasParent]"
  by (simp add: collect_properties_def props_def subjects_def ex_graph_def ex_env_def
        RDF_type_def RDF_Property_def OWL_ObjectProperty_def OWL_DatatypeProperty_def OWL_Class_def
        OWL_Ontology_def OWL_inverseOf_def DCTERMS_title_def RDFS_label_def
        ex_hasChild_def ex_hasParent_def ex_Animal_def ex_ont_def)

theorem property_kind_resolution_witness:
  "property_info ex_env ex_graph ex_hasParent \<in> set (collect_properties ex_env ex_graph)
   \<and> p_kind (property_info ex_env ex_graph ex_hasParent)
       \<in> {''ObjectProperty'', ''DatatypeProperty'', ''Property''}
   \<and> p_kind (property_info ex_env ex_graph ex_hasParent) = ''ObjectProperty''"
proof -
  have m: "property_info ex_env ex_graph ex_hasParent \<in> set (collect_properties ex_env ex_graph)"
    by (simp add: collect_properties_ex)
  with property_kind_resolution [of ex_env ex_graph]
  have "p_kind (property_info ex_env ex_graph ex_hasParent)
          \<in> {''ObjectProperty'', ''DatatypeProperty'', ''Property''}"
    by blast
  moreover have "p_kind (property_info ex_env ex_graph ex_hasParent) = ''ObjectProperty''"
    by (simp add: p_kind_property_info property_kind_def contains_def
          ex_graph_def ex_hasParent_def RDF_type_def OWL_ObjectProperty_def)
  ultimately show ?thesis
    using m by simp
qed

section \<open>Class and property collection\<close>

lemma contains_both_graph:
  "contains both_graph (ex_Animal, RDF_type, OWL_Class)"
  "contains both_graph (ex_Animal, RDF_type, OWL_ObjectProperty)"
  by (simp_all add: contains_def both_graph_def)

lemma class_collected:
  "set_iter_ok e \<Longrightarrow> contains g (s, RDF_type, OWL_Class) \<Longrightarrow>
     class_info e g s \<in> set (collect_classes e g)"
  by (simp add: set_collect_classes set_iter_set set_subjects contains_def)

lemma property_collected:
  "set_iter_ok e \<Longrightarrow>
   contains g (s, RDF_type, OWL_ObjectProperty)
     \<or> contains g (s, RDF_type, OWL_DatatypeProperty)
     \<or> contains g (s, RDF_type, RDF_Property) \<Longrightarrow>
     property_info e g s \<in> set (collect_properties e g)"
  by (simp add: set_collect_properties set_props)

text \<open>
  C10. A subject with a \<open>Class\<close> type assertion and a type assertion of one of the three
  property kinds gets a descriptor in the class list and a descriptor in the property
  list.
\<close>

theorem class_and_property_not_exclusive:
  assumes "set_iter_ok e"
    and "contains g (s, RDF_type, OWL_Class)"
    and "contains g (s, RDF_type, OWL_ObjectProperty)
         \<or> contains g (s, RDF_type, OWL_DatatypeProperty)
         \<or> contains g (s, RDF_type, RDF_Property)"
  shows "class_info e g s \<in> set (collect_classes e g)
         \<and> c_iri (class_info e g s) = node_str s
         \<and> property_info e g s \<in> set (collect_properties e g)
         \<and> p_iri (property_info e g s) = node_str s"
proof (intro conjI)
  show "class_info e g s \<in> set (collect_classes e g)"
    using assms(1,2) by (rule class_collected)
  show "property_info e g s \<in> set (collect_properties e g)"
    using assms(1,3) by (rule property_collected)
  show "c_iri (class_info e g s) = node_str s"
    by (simp add: class_info_def)
  show "p_iri (property_info e g s) = node_str s"
    by (simp add: property_info_def)
qed

theorem class_and_property_not_exclusive_witness:
  "set_iter_ok ex_env
   \<and> contains both_graph (ex_Animal, RDF_type, OWL_Class)
   \<and> contains both_graph (ex_Animal, RDF_type, OWL_ObjectProperty)
   \<and> class_info ex_env both_graph ex_Animal \<in> set (collect_classes ex_env both_graph)
   \<and> property_info ex_env both_graph ex_Animal \<in> set (collect_properties ex_env both_graph)"
  using class_and_property_not_exclusive
          [OF set_iter_ok_remdups contains_both_graph(1) disjI1 [OF contains_both_graph(2)]]
  by (simp add: set_iter_ok_remdups contains_both_graph)

section \<open>Inverse properties\<close>

lemma set_inverses_set:
  "set_iter_ok e \<Longrightarrow>
     set (inverses_set e g s) =
       {u. is_URIRef u \<and> (contains g (s, OWL_inverseOf, u) \<or> contains g (u, OWL_inverseOf, s))}"
  by (auto simp: inverses_set_def set_iter_set set_objects set_subjects contains_def)

lemma p_inverses_property_info:
  "p_inverses (property_info e g s) = map (qname e g) (sort_key (qname e g) (inverses_set e g s))"
  by (simp add: property_info_def)

lemma inverse_listed:
  assumes "set_iter_ok e"
    and "is_URIRef u"
    and "contains g (s, OWL_inverseOf, u) \<or> contains g (u, OWL_inverseOf, s)"
  shows "qname e g u \<in> set (p_inverses (property_info e g s))"
proof -
  from assms have "u \<in> set (inverses_set e g s)"
    by (simp add: set_inverses_set)
  then show ?thesis
    by (simp add: p_inverses_property_info)
qed

lemma inverses_sorted: "sorted (p_inverses (property_info e g s))"
  by (simp add: p_inverses_property_info)

lemma inverses_deduplicated:
  assumes "set_iter_ok e"
  shows "\<exists>us. distinct us
           \<and> set us = {u. is_URIRef u \<and> (contains g (s, OWL_inverseOf, u) \<or> contains g (u, OWL_inverseOf, s))}
           \<and> p_inverses (property_info e g s) = map (qname e g) us"
proof (intro exI conjI)
  show "distinct (sort_key (qname e g) (inverses_set e g s))"
    using assms by (simp add: inverses_set_def set_iter_distinct)
  show "set (sort_key (qname e g) (inverses_set e g s)) =
          {u. is_URIRef u \<and> (contains g (s, OWL_inverseOf, u) \<or> contains g (u, OWL_inverseOf, s))}"
    using assms by (simp add: set_inverses_set)
  show "p_inverses (property_info e g s) = map (qname e g) (sort_key (qname e g) (inverses_set e g s))"
    by (rule p_inverses_property_info)
qed

lemma inverses_distinct_names:
  assumes "set_iter_ok e" and "inj_on (qname e g) (Collect is_URIRef)"
  shows "distinct (p_inverses (property_info e g s))"
proof -
  have "distinct (sort_key (qname e g) (inverses_set e g s))"
    using assms(1) by (simp add: inverses_set_def set_iter_distinct)
  moreover have "set (sort_key (qname e g) (inverses_set e g s)) \<subseteq> Collect is_URIRef"
    using assms(1) by (auto simp: set_inverses_set)
  ultimately show ?thesis
    using assms(2) by (auto simp: p_inverses_property_info distinct_map intro: inj_on_subset)
qed

text \<open>
  C2, as stated, at a blank node: \<open>_:b\<close> is asserted as a property and as the inverse of
  \<open>ex:hasParent\<close>; both have a descriptor in the property list, the one of \<open>_:b\<close> lists
  \<open>ex:hasParent\<close>, and the one of \<open>ex:hasParent\<close> lists nothing.
\<close>

theorem inverse_blank_node_counterexample:
  "contains bnode_graph (BNode ''b'', OWL_inverseOf, ex_hasParent)
   \<and> map p_iri (collect_properties ex_env bnode_graph) = [''b'', ''http://e.org/o#hasParent'']
   \<and> p_inverses (property_info ex_env bnode_graph (BNode ''b'')) = [''ex:hasParent'']
   \<and> p_inverses (property_info ex_env bnode_graph ex_hasParent) = []"
proof -
  have i: "inverses_set ex_env bnode_graph (BNode ''b'') = [ex_hasParent]"
    "inverses_set ex_env bnode_graph ex_hasParent = []"
    by (simp_all add: inverses_set_def objects_def subjects_def bnode_graph_def ex_env_def
          ex_hasParent_def RDF_type_def OWL_ObjectProperty_def OWL_inverseOf_def)
  have q: "qname ex_env bnode_graph ex_hasParent = ''ex:hasParent''"
    "qname ex_env bnode_graph (BNode ''b'') = ''<b>''"
    by (simp_all add: qname_def ex_env_def bnode_graph_def n3_normalizeUri_def ex_hasParent_def)
  have s: "props ex_env bnode_graph = [BNode ''b'', ex_hasParent]"
    by (simp add: props_def subjects_def bnode_graph_def ex_env_def ex_hasParent_def
          RDF_type_def RDF_Property_def OWL_ObjectProperty_def OWL_DatatypeProperty_def
          OWL_inverseOf_def)
  have l: "get_literals bnode_graph t RDFS_label = []" for t
    by (simp add: get_literals_def objects_def bnode_graph_def List.map_filter_simps
          ex_hasParent_def RDF_type_def RDFS_label_def OWL_ObjectProperty_def OWL_inverseOf_def)
  have k: "property_key ex_env (property_info ex_env bnode_graph (BNode ''b'')) = (''<b>'', ''<b>'')"
    "property_key ex_env (property_info ex_env bnode_graph ex_hasParent)
       = (''ex:hasparent'', ''ex:hasParent'')"
    by (simp_all add: property_key_def property_info_def display_label_no_literal l q
          str_lower_ex_env lower_def lower_char_def)
  have "collect_properties ex_env bnode_graph =
          [property_info ex_env bnode_graph (BNode ''b''), property_info ex_env bnode_graph ex_hasParent]"
    by (simp add: collect_properties_def s k)
  then have "map p_iri (collect_properties ex_env bnode_graph) = [''b'', ''http://e.org/o#hasParent'']"
    by (simp add: property_info_def ex_hasParent_def)
  moreover have "contains bnode_graph (BNode ''b'', OWL_inverseOf, ex_hasParent)"
    by (simp add: contains_def bnode_graph_def)
  ultimately show ?thesis
    by (simp add: p_inverses_property_info i q)
qed

text \<open>
  C2, amended. For subjects \<open>a\<close> and \<open>b\<close> with an inverse-of assertion between them in
  either direction, the descriptor of \<open>a\<close> lists the compact name of \<open>b\<close> among its inverses
  if \<open>b\<close> is a URI reference, and the descriptor of \<open>b\<close> lists the compact name of \<open>a\<close> if
  \<open>a\<close> is one. The inverse list of any subject is sorted, and it is the list of compact
  names of a duplicate-free list of exactly the URI references related to the subject by
  an inverse-of assertion in either direction, so that no name is listed twice when
  distinct identifiers have distinct compact names. The descriptor of a subject asserted
  as a property of one of the three kinds is in the property list.
\<close>

theorem inverse_relation_symmetric:
  assumes "set_iter_ok e"
    and "contains g (a, OWL_inverseOf, b) \<or> contains g (b, OWL_inverseOf, a)"
  shows "(is_URIRef b \<longrightarrow> qname e g b \<in> set (p_inverses (property_info e g a)))
         \<and> (is_URIRef a \<longrightarrow> qname e g a \<in> set (p_inverses (property_info e g b)))
         \<and> (\<forall>s. sorted (p_inverses (property_info e g s))
                \<and> (\<exists>us. distinct us
                      \<and> set us = {u. is_URIRef u
                                      \<and> (contains g (s, OWL_inverseOf, u) \<or> contains g (u, OWL_inverseOf, s))}
                      \<and> p_inverses (property_info e g s) = map (qname e g) us)
                \<and> (inj_on (qname e g) (Collect is_URIRef)
                    \<longrightarrow> distinct (p_inverses (property_info e g s)))
                \<and> (contains g (s, RDF_type, OWL_ObjectProperty)
                      \<or> contains g (s, RDF_type, OWL_DatatypeProperty)
                      \<or> contains g (s, RDF_type, RDF_Property)
                    \<longrightarrow> property_info e g s \<in> set (collect_properties e g)))"
proof (intro conjI allI impI)
  assume "is_URIRef b"
  with assms show "qname e g b \<in> set (p_inverses (property_info e g a))"
    by (intro inverse_listed) auto
next
  assume "is_URIRef a"
  with assms show "qname e g a \<in> set (p_inverses (property_info e g b))"
    by (intro inverse_listed) auto
next
  fix s show "sorted (p_inverses (property_info e g s))"
    by (rule inverses_sorted)
next
  fix s
  show "\<exists>us. distinct us
           \<and> set us = {u. is_URIRef u \<and> (contains g (s, OWL_inverseOf, u) \<or> contains g (u, OWL_inverseOf, s))}
           \<and> p_inverses (property_info e g s) = map (qname e g) us"
    using assms(1) by (rule inverses_deduplicated)
next
  fix s
  assume "inj_on (qname e g) (Collect is_URIRef)"
  with assms(1) show "distinct (p_inverses (property_info e g s))"
    by (rule inverses_distinct_names)
next
  fix s
  assume "contains g (s, RDF_type, OWL_ObjectProperty)
            \<or> contains g (s, RDF_type, OWL_DatatypeProperty)
            \<or> contains g (s, RDF_type, RDF_Property)"
  with assms(1) show "property_info e g s \<in> set (collect_properties e g)"
    by (rule property_collected)
qed

lemma contains_ex_inverse:
  "contains ex_graph (URIRef ''http://e.org/o#hasParent'', OWL_inverseOf, URIRef ''http://e.org/o#hasChild'')"
  by (simp add: contains_def ex_graph_def ex_hasParent_def ex_hasChild_def)

lemma contains_ex_hasParent:
  "contains ex_graph (URIRef ''http://e.org/o#hasParent'', RDF_type, OWL_ObjectProperty)"
  by (simp add: contains_def ex_graph_def ex_hasParent_def ex_hasChild_def)

lemma qname_ex_hasChild:
  "qname ex_env ex_graph (URIRef ''http://e.org/o#hasChild'') = ''ex:hasChild''"
  by (simp add: qname_def ex_env_def ex_graph_def n3_normalizeUri_def)

lemma qname_ex_hasParent:
  "qname ex_env ex_graph (URIRef ''http://e.org/o#hasParent'') = ''ex:hasParent''"
  by (simp add: qname_def ex_env_def ex_graph_def n3_normalizeUri_def)

lemma set_iter_ok_raising: "set_iter_ok raising_env"
  by (simp add: set_iter_ok_def raising_env_def ex_env_def)

lemma qname_raising: "qname raising_env g t = node_str t"
  by (simp add: qname_def raising_env_def)

lemma inj_qname_raising: "inj_on (qname raising_env g) (Collect is_URIRef)"
proof (rule inj_onI)
  fix x y
  assume "x \<in> Collect is_URIRef" "y \<in> Collect is_URIRef"
    and "qname raising_env g x = qname raising_env g y"
  then show "x = y"
    by (cases x; cases y) (simp_all add: qname_raising)
qed

lemma contains_ex_inverse_raising:
  "contains ex_graph (URIRef ''http://e.org/o#hasParent'', OWL_inverseOf, URIRef ''http://e.org/o#hasChild'')
   \<or> contains ex_graph (URIRef ''http://e.org/o#hasChild'', OWL_inverseOf, URIRef ''http://e.org/o#hasParent'')"
  by (simp add: contains_ex_inverse)

theorem inverse_relation_symmetric_witness:
  "set_iter_ok ex_env
   \<and> contains ex_graph (URIRef ''http://e.org/o#hasParent'', OWL_inverseOf, URIRef ''http://e.org/o#hasChild'')
   \<and> ''ex:hasChild'' \<in> set (p_inverses (property_info ex_env ex_graph (URIRef ''http://e.org/o#hasParent'')))
   \<and> ''ex:hasParent'' \<in> set (p_inverses (property_info ex_env ex_graph (URIRef ''http://e.org/o#hasChild'')))
   \<and> contains ex_graph (URIRef ''http://e.org/o#hasParent'', RDF_type, OWL_ObjectProperty)
   \<and> property_info ex_env ex_graph (URIRef ''http://e.org/o#hasParent'')
       \<in> set (collect_properties ex_env ex_graph)
   \<and> set_iter_ok raising_env
   \<and> inj_on (qname raising_env ex_graph) (Collect is_URIRef)
   \<and> distinct (p_inverses (property_info raising_env ex_graph (URIRef ''http://e.org/o#hasParent'')))"
  using inverse_relation_symmetric
          [OF set_iter_ok_remdups disjI1 [OF contains_ex_inverse]]
        inverse_relation_symmetric
          [OF set_iter_ok_raising contains_ex_inverse_raising]
        contains_ex_hasParent
  by (simp add: set_iter_ok_remdups set_iter_ok_raising inj_qname_raising
        contains_ex_inverse qname_ex_hasChild qname_ex_hasParent)

section \<open>The class list\<close>

lemma class_info_label_default:
  "get_literals g s RDFS_label = [] \<Longrightarrow>
     c_label (class_info e g s) = c_qname (class_info e g s)
     \<and> c_qname (class_info e g s) = qname e g s"
  by (simp add: class_info_def display_label_no_literal)

lemma qname_set_iter: "qname (e\<lparr>set_iter := so\<rparr>) g = qname e g"
  by (rule ext) (simp add: qname_def)

lemma class_key_set_iter: "class_key (e\<lparr>set_iter := so\<rparr>) = class_key e"
  by (rule ext) (simp add: class_key_def)

lemma class_info_set_iter: "class_info (e\<lparr>set_iter := so\<rparr>) g = class_info e g"
  by (rule ext) (simp add: class_info_def display_label_def qname_set_iter cong: option.case_cong)

lemma map_insort_key: "map f (insort_key f x xs) = insort (f x) (map f xs)"
  by (induction xs) simp_all

lemma map_sort_key: "map f (sort_key f xs) = sort (map f xs)"
  by (induction xs) (simp_all add: map_insort_key)

lemma collect_classes_sorted_keys: "sorted (map (class_key e) (collect_classes e g))"
  by (simp add: collect_classes_def)

lemma collect_classes_stable:
  "filter (\<lambda>d. class_key e d = k) (collect_classes e g) =
     filter (\<lambda>d. class_key e d = k) (map (class_info e g) (set_iter e (subjects g RDF_type OWL_Class)))"
  by (simp add: collect_classes_def sort_key_stable)

lemma mset_set_iter:
  assumes "set_iter_ok e" and "set_iter_ok (e\<lparr>set_iter := so\<rparr>)"
  shows "mset (so xs) = mset (set_iter e xs)"
proof -
  have "distinct (so xs)" "set (so xs) = set xs"
    using assms(2) by (simp_all add: set_iter_ok_def)
  moreover have "distinct (set_iter e xs)" "set (set_iter e xs) = set xs"
    using assms(1) by (simp_all add: set_iter_ok_def)
  ultimately show ?thesis
    by (simp add: set_eq_iff_mset_eq_distinct [symmetric])
qed

lemma collect_classes_keys_order_free:
  assumes "set_iter_ok e" and "set_iter_ok (e\<lparr>set_iter := so\<rparr>)"
  shows "map (class_key e) (collect_classes (e\<lparr>set_iter := so\<rparr>) g) = map (class_key e) (collect_classes e g)"
proof -
  let ?S = "subjects g RDF_type OWL_Class"
  have "mset (map (class_key e) (map (class_info e g) (so ?S)))
          = mset (map (class_key e) (map (class_info e g) (set_iter e ?S)))"
    using mset_set_iter [OF assms, of ?S] by simp
  then have "sort (map (class_key e) (map (class_info e g) (so ?S)))
               = sort (map (class_key e) (map (class_info e g) (set_iter e ?S)))"
    by (intro properties_for_sort) simp_all
  then show ?thesis
    by (simp add: collect_classes_def class_info_set_iter class_key_set_iter map_sort_key)
qed

lemma collect_classes_order_free:
  assumes "set_iter_ok e" and "set_iter_ok (e\<lparr>set_iter := so\<rparr>)"
    and inj: "inj_on (qname e g) {s. contains g (s, RDF_type, OWL_Class)}"
  shows "collect_classes (e\<lparr>set_iter := so\<rparr>) g = collect_classes e g"
proof -
  let ?S = "subjects g RDF_type OWL_Class"
  let ?xs = "map (class_info e g) (so ?S)"
  let ?ys = "sort_key (class_key e) (map (class_info e g) (set_iter e ?S))"
  have sub: "set (so ?S) = {s. contains g (s, RDF_type, OWL_Class)}"
    using assms(2) by (simp add: set_iter_ok_def set_subjects contains_def)
  have "inj_on (\<lambda>s. class_key e (class_info e g s)) (set (so ?S))"
  proof (rule inj_onI)
    fix x y
    assume "x \<in> set (so ?S)" "y \<in> set (so ?S)"
      and "class_key e (class_info e g x) = class_key e (class_info e g y)"
    then have "qname e g x = qname e g y"
      and "x \<in> {s. contains g (s, RDF_type, OWL_Class)}"
      and "y \<in> {s. contains g (s, RDF_type, OWL_Class)}"
      by (simp_all add: class_key_def class_info_def sub)
    then show "x = y"
      by (rule inj_onD [OF inj])
  qed
  then have "inj_on (class_key e) (set ?xs)"
    by (auto simp: inj_on_def)
  moreover have "mset ?xs = mset ?ys"
    using mset_set_iter [OF assms(1,2), of ?S] by simp
  moreover have "sorted (map (class_key e) ?ys)"
    by simp
  ultimately have "sort_key (class_key e) ?xs = ?ys"
    by (intro sort_key_inj_key_eq)
  then show ?thesis
    by (simp add: collect_classes_def class_info_set_iter class_key_set_iter)
qed

text \<open>
  C5. A class subject without a label literal gets its compact name as display label.
  Every descriptor of the class list belongs to a subject of the class set; the list is
  sorted ascending by the pair of lower-cased label (by \<open>str.lower\<close>, whatever it does to
  a character) and compact name, and the sort is stable. The order of the keys does not depend on the order in which the set of class
  subjects is iterated, and neither does the list itself when distinct class subjects have
  distinct compact names: extraction from an unchanged graph gives the identical list.
\<close>

theorem collect_classes_sorted:
  "(\<forall>s. get_literals g s RDFS_label = [] \<longrightarrow>
        c_label (class_info e g s) = c_qname (class_info e g s)
        \<and> c_qname (class_info e g s) = qname e g s)
   \<and> (\<forall>d \<in> set (collect_classes e g).
        \<exists>s \<in> set (set_iter e (subjects g RDF_type OWL_Class)). d = class_info e g s)
   \<and> sorted (map (class_key e) (collect_classes e g))
   \<and> (\<forall>k. filter (\<lambda>d. class_key e d = k) (collect_classes e g) =
           filter (\<lambda>d. class_key e d = k)
             (map (class_info e g) (set_iter e (subjects g RDF_type OWL_Class))))
   \<and> (\<forall>so. set_iter_ok e \<and> set_iter_ok (e\<lparr>set_iter := so\<rparr>) \<longrightarrow>
          map (class_key e) (collect_classes (e\<lparr>set_iter := so\<rparr>) g) = map (class_key e) (collect_classes e g)
          \<and> (inj_on (qname e g) {s. contains g (s, RDF_type, OWL_Class)} \<longrightarrow>
                collect_classes (e\<lparr>set_iter := so\<rparr>) g = collect_classes e g))"
proof (intro conjI allI impI ballI)
  fix s assume "get_literals g s RDFS_label = []"
  then show "c_label (class_info e g s) = c_qname (class_info e g s)"
    and "c_qname (class_info e g s) = qname e g s"
    by (simp_all add: class_info_label_default)
next
  fix d assume "d \<in> set (collect_classes e g)"
  then show "\<exists>s \<in> set (set_iter e (subjects g RDF_type OWL_Class)). d = class_info e g s"
    by (auto simp: set_collect_classes)
next
  show "sorted (map (class_key e) (collect_classes e g))"
    by (rule collect_classes_sorted_keys)
next
  fix k
  show "filter (\<lambda>d. class_key e d = k) (collect_classes e g) =
           filter (\<lambda>d. class_key e d = k)
             (map (class_info e g) (set_iter e (subjects g RDF_type OWL_Class)))"
    by (rule collect_classes_stable)
next
  fix so assume "set_iter_ok e \<and> set_iter_ok (e\<lparr>set_iter := so\<rparr>)"
  then show "map (class_key e) (collect_classes (e\<lparr>set_iter := so\<rparr>) g) = map (class_key e) (collect_classes e g)"
    by (simp add: collect_classes_keys_order_free)
next
  fix so
  assume "set_iter_ok e \<and> set_iter_ok (e\<lparr>set_iter := so\<rparr>)"
    and "inj_on (qname e g) {s. contains g (s, RDF_type, OWL_Class)}"
  then show "collect_classes (e\<lparr>set_iter := so\<rparr>) g = collect_classes e g"
    by (simp add: collect_classes_order_free)
qed


lemma subjects_classes_graph:
  "subjects classes_graph RDF_type OWL_Class = [ex_Zebra, ex_Animal]"
  by (simp add: subjects_def classes_graph_def RDF_type_def OWL_Class_def RDFS_label_def
        ex_Zebra_def ex_Animal_def)

lemma no_label_Zebra: "get_literals classes_graph ex_Zebra RDFS_label = []"
  by (simp add: get_literals_def objects_def classes_graph_def List.map_filter_simps
        RDF_type_def OWL_Class_def RDFS_label_def ex_Zebra_def ex_Animal_def)

lemma label_Animal:
  "get_literals classes_graph ex_Animal RDFS_label
     = [\<lparr>lexical = ''animal'', language = None, truth = True\<rparr>]"
  by (simp add: get_literals_def objects_def classes_graph_def List.map_filter_simps
        RDF_type_def OWL_Class_def RDFS_label_def ex_Zebra_def ex_Animal_def)

lemma qname_classes_graph:
  "qname ex_env classes_graph ex_Zebra = ''ex:Zebra''"
  "qname ex_env classes_graph ex_Animal = ''ex:Animal''"
  by (simp_all add: qname_def ex_env_def classes_graph_def n3_normalizeUri_def
        ex_Zebra_def ex_Animal_def)

lemma class_keys_classes_graph:
  "class_key ex_env (class_info ex_env classes_graph ex_Zebra) = (''ex:zebra'', ''ex:Zebra'')"
  "class_key ex_env (class_info ex_env classes_graph ex_Animal) = (''animal'', ''ex:Animal'')"
  by (simp_all add: class_key_def class_info_def display_label_def no_label_Zebra label_Animal
        literal_by_lang_def by_lang_add_def str_if_true_def qname_classes_graph
        str_lower_ex_env lower_def lower_char_def)

lemma collect_classes_classes_graph:
  "collect_classes ex_env classes_graph =
     [class_info ex_env classes_graph ex_Animal, class_info ex_env classes_graph ex_Zebra]"
proof -
  have "set_iter ex_env [ex_Zebra, ex_Animal] = [ex_Zebra, ex_Animal]"
    by (simp add: ex_env_def ex_Zebra_def ex_Animal_def)
  then show ?thesis
    by (simp add: collect_classes_def subjects_classes_graph class_keys_classes_graph)
qed

lemma set_iter_ok_rev: "set_iter_ok (ex_env\<lparr>set_iter := rev_iter\<rparr>)"
  by (simp add: set_iter_ok_def rev_iter_def)

lemma inj_qname_classes_graph:
  "inj_on (qname ex_env classes_graph) {s. contains classes_graph (s, RDF_type, OWL_Class)}"
proof -
  have "{s. contains classes_graph (s, RDF_type, OWL_Class)} = set (subjects classes_graph RDF_type OWL_Class)"
    by (simp add: set_subjects contains_def)
  then show ?thesis
    by (auto simp: subjects_classes_graph qname_classes_graph inj_on_def)
qed

theorem collect_classes_sorted_witness:
  "get_literals classes_graph ex_Zebra RDFS_label = []
   \<and> c_label (class_info ex_env classes_graph ex_Zebra) = ''ex:Zebra''
   \<and> collect_classes ex_env classes_graph =
       [class_info ex_env classes_graph ex_Animal, class_info ex_env classes_graph ex_Zebra]
   \<and> map (class_key ex_env) (collect_classes ex_env classes_graph) =
       [(''animal'', ''ex:Animal''), (''ex:zebra'', ''ex:Zebra'')]
   \<and> set_iter_ok ex_env \<and> set_iter_ok (ex_env\<lparr>set_iter := rev_iter\<rparr>)
   \<and> inj_on (qname ex_env classes_graph) {s. contains classes_graph (s, RDF_type, OWL_Class)}
   \<and> collect_classes (ex_env\<lparr>set_iter := rev_iter\<rparr>) classes_graph =
       [class_info ex_env classes_graph ex_Animal, class_info ex_env classes_graph ex_Zebra]"
  using collect_classes_sorted [of classes_graph ex_env]
  by (simp add: no_label_Zebra qname_classes_graph collect_classes_classes_graph
        class_keys_classes_graph set_iter_ok_remdups set_iter_ok_rev inj_qname_classes_graph)

section \<open>Compact names\<close>

lemma qname_resolved:
  assumes "resolves e matching" and "matching (bindings g) t"
  shows "prefixed_form (bindings g) t (qname e g t)"
proof -
  from assms obtain q where "normalizeUri e (bindings g) t = Inr q"
    and "prefixed_form (bindings g) t q"
    by (auto simp: resolves_def)
  then show ?thesis
    by (simp add: qname_def)
qed

lemma resolves_n3: "resolves ex_env ns_matches"
proof -
  have "\<exists>q. n3_normalizeUri b t = Inr q \<and> prefixed_form b t q" if "ns_matches b t" for b t
  proof -
    from that obtain pref ns where
      f: "find (\<lambda>(pref, ns). take (length ns) (node_str t) = ns) b = Some (pref, ns)"
      by (cases "find (\<lambda>(pref, ns). take (length ns) (node_str t) = ns) b")
         (auto simp: ns_matches_def list_ex_iff find_None_iff)
    then have "(pref, ns) \<in> set b" and "take (length ns) (node_str t) = ns"
      by (auto simp: find_Some_iff in_set_conv_nth)
    then have "prefixed_form b t (pref @ '':'' @ drop (length ns) (node_str t))"
      by (auto simp: prefixed_form_def list_ex_iff)
    with f show ?thesis
      by (simp add: n3_normalizeUri_def)
  qed
  then show ?thesis
    by (simp add: resolves_def ex_env_def)
qed

text \<open>
  C6, as stated, at a term under no registered namespace: the prefix table is empty,
  \<open>normalizeUri\<close> returns the term in angle brackets without raising, and \<open>qname\<close> returns
  that, not the identifier as it is.
\<close>

theorem qname_unmatched_counterexample:
  "bindings generic_graph = []
   \<and> \<not> ns_matches (bindings generic_graph) ex_hasChild
   \<and> qname ex_env generic_graph ex_hasChild = ''<http://e.org/o#hasChild>''
   \<and> node_str ex_hasChild = ''http://e.org/o#hasChild''
   \<and> qname ex_env generic_graph ex_hasChild \<noteq> node_str ex_hasChild"
  by (simp add: qname_def ex_env_def generic_graph_def n3_normalizeUri_def ex_hasChild_def
        ns_matches_def)

text \<open>
  C6, amended. \<open>qname\<close> never raises. It returns a prefixed form of the term under a
  registered namespace whenever a registered namespace matches, for any notion of
  matching under which the namespace manager resolves the matching terms. For any other
  term it returns what \<open>normalizeUri\<close> returns, and the identifier string as it is exactly
  if the call raises or that string is what it returned.
\<close>

theorem qname_resolution:
  "(resolves e matching \<and> matching (bindings g) t \<longrightarrow> prefixed_form (bindings g) t (qname e g t))
   \<and> (\<forall>q. normalizeUri e (bindings g) t = Inr q \<longrightarrow> qname e g t = q)
   \<and> (\<forall>x. normalizeUri e (bindings g) t = Inl x \<longrightarrow> qname e g t = node_str t)
   \<and> (qname e g t = node_str t \<longleftrightarrow>
        (\<exists>x. normalizeUri e (bindings g) t = Inl x) \<or> normalizeUri e (bindings g) t = Inr (node_str t))"
proof (intro conjI allI impI)
  assume "resolves e matching \<and> matching (bindings g) t"
  then show "prefixed_form (bindings g) t (qname e g t)"
    by (elim conjE) (rule qname_resolved)
next
  fix q assume "normalizeUri e (bindings g) t = Inr q"
  then show "qname e g t = q"
    by (simp add: qname_def)
next
  fix x assume "normalizeUri e (bindings g) t = Inl x"
  then show "qname e g t = node_str t"
    by (simp add: qname_def)
next
  show "qname e g t = node_str t \<longleftrightarrow>
        (\<exists>x. normalizeUri e (bindings g) t = Inl x) \<or> normalizeUri e (bindings g) t = Inr (node_str t)"
    by (cases "normalizeUri e (bindings g) t") (auto simp: qname_def)
qed

theorem qname_resolution_witness:
  "resolves ex_env ns_matches
   \<and> ns_matches (bindings ex_graph) ex_hasChild
   \<and> prefixed_form (bindings ex_graph) ex_hasChild (qname ex_env ex_graph ex_hasChild)
   \<and> normalizeUri ex_env (bindings ex_graph) ex_hasChild = Inr ''ex:hasChild''
   \<and> qname ex_env ex_graph ex_hasChild = ''ex:hasChild''
   \<and> normalizeUri raising_env (bindings ex_graph) ex_hasChild = Inl ''unavailable''
   \<and> qname raising_env ex_graph ex_hasChild = ''http://e.org/o#hasChild''"
proof -
  have a: "normalizeUri ex_env (bindings ex_graph) ex_hasChild = Inr ''ex:hasChild''"
    by (simp add: ex_env_def ex_graph_def n3_normalizeUri_def ex_hasChild_def)
  have b: "normalizeUri raising_env (bindings ex_graph) ex_hasChild = Inl ''unavailable''"
    by (simp add: raising_env_def)
  have m: "ns_matches (bindings ex_graph) ex_hasChild"
    by (simp add: ns_matches_def ex_graph_def ex_hasChild_def)
  have 1: "prefixed_form (bindings ex_graph) ex_hasChild (qname ex_env ex_graph ex_hasChild)"
    using qname_resolution [of ex_env ns_matches ex_graph ex_hasChild, THEN conjunct1] resolves_n3 m
    by simp
  have 2: "qname ex_env ex_graph ex_hasChild = ''ex:hasChild''"
    using qname_resolution [of ex_env ns_matches ex_graph ex_hasChild] a by simp
  have 3: "qname raising_env ex_graph ex_hasChild = ''http://e.org/o#hasChild''"
    using qname_resolution [of raising_env ns_matches ex_graph ex_hasChild] b
    by (simp add: ex_hasChild_def)
  from a b m 1 2 3 resolves_n3 show ?thesis
    by simp
qed

section \<open>The default prefix\<close>



lemma ensure_default_prefix_empty: "ensure_default_prefix e g (Some []) = g"
  by (simp add: ensure_default_prefix_def)





















section \<open>The driver\<close>

lemma fst_bind_res:
  "fst (bind_res m f) = (case fst m of Inl x \<Rightarrow> Inl x | Inr v \<Rightarrow> fst (f v))"
  by (cases m) (auto simp: bind_res_def split: sum.splits prod.splits)

lemma fst_ret: "fst (ret v) = Inr v"
  by (simp add: ret_def)

lemma fst_raise: "fst (raise x) = Inl x"
  by (simp add: raise_def)

lemma fst_print_line: "stdout_ok e \<Longrightarrow> fst (print_line e m) = Inr ()"
  by (simp add: print_line_def stdout_ok_def)

lemma relative_to_under: "relative_to (base @ r) base = Inr r"
  by (simp add: relative_to_def)

lemma serialise_graph_outputs:
  assumes "fst (serialise_graph e g dest_dir base) = Inr out"
  shows "out = [(''ttl'', dest_dir @ [base @ ''.ttl'']),
                (''jsonld'', dest_dir @ [base @ ''.jsonld'']),
                (''owl'', dest_dir @ [base @ ''.owl''])]"
  using assms
  by (simp add: serialise_graph_def Let_def fst_bind_res fst_ret split: sum.splits)

lemma convert_file_outputs:
  assumes "fst (convert_file e p source_dir deployment_dir template_path) = Inr out"
  shows "\<forall>(label, q) \<in> set out. \<exists>r. q = deployment_dir @ r"
proof -
  from assms obtain g relative where
    rest: "fst (bind_res (serialise_graph e g (deployment_dir @ parent relative) (stem relative))
             (\<lambda>serialised.
                bind_res (render_html e g (stem relative) template_path
                            ((deployment_dir @ parent relative) @ [stem relative @ ''.html'']) relative)
                  (\<lambda>u. ret (serialised @
                       [(''html'', (deployment_dir @ parent relative) @ [stem relative @ ''.html''])]))))
           = Inr out"
    by (auto simp: convert_file_def Let_def fst_raise split: sum.splits)
  from rest obtain ser where
    ser: "fst (serialise_graph e g (deployment_dir @ parent relative) (stem relative)) = Inr ser"
    and out: "out = ser @ [(''html'', (deployment_dir @ parent relative) @ [stem relative @ ''.html''])]"
    by (auto simp: fst_bind_res fst_ret split: sum.splits)
  from serialise_graph_outputs [OF ser] out show ?thesis
    by simp
qed

lemma print_outputs_ok:
  "stdout_ok e \<Longrightarrow> \<forall>(label, q) \<in> set out. \<exists>r. q = deployment_dir @ r \<Longrightarrow>
     fst (print_outputs e deployment_dir out) = Inr ()"
proof (induction out)
  case Nil
  then show ?case by (simp add: fst_ret)
next
  case (Cons a out)
  obtain label q where a: "a = (label, q)" by (cases a)
  with Cons.prems obtain r where "q = deployment_dir @ r" by auto
  with Cons a show ?case
    by (simp add: relative_to_under fst_bind_res fst_print_line)
qed

lemma convert_all_ok:
  assumes "stdout_ok e"
    and "\<forall>p \<in> set files. \<exists>r. p = source_dir @ r"
    and "\<forall>p \<in> set files. \<exists>out. fst (convert_file e p source_dir deployment_dir template_path) = Inr out"
  shows "fst (convert_all e source_dir deployment_dir template_path files) = Inr ()"
  using assms(2,3)
proof (induction files)
  case Nil
  then show ?case by (simp add: fst_ret)
next
  case (Cons p files)
  from Cons.prems(1) obtain r where r: "p = source_dir @ r" by auto
  from Cons.prems(2) obtain out where
    out: "fst (convert_file e p source_dir deployment_dir template_path) = Inr out" by auto
  have "fst (print_outputs e deployment_dir out) = Inr ()"
    using assms(1) convert_file_outputs [OF out] by (rule print_outputs_ok)
  moreover have "fst (convert_all e source_dir deployment_dir template_path files) = Inr ()"
    using Cons by simp
  ultimately show ?case
    using out assms(1) by (simp add: r relative_to_under fst_bind_res fst_print_line)
qed

lemma source_files_under:
  "\<forall>p \<in> set (source_files e source_dir pat). \<exists>r. p = source_dir @ r"
  by (auto simp: source_files_def)

lemma source_files_empty:
  "(source_files e source_dir pat = []) = (rglob e source_dir pat = [])"
proof -
  have "(source_files e source_dir pat = []) = (set (source_files e source_dir pat) = {})"
    by simp
  then show ?thesis
    by (simp add: source_files_def)
qed

lemma run_no_input:
  assumes "exists e (a_template a)"
    and "rglob e (a_source_dir a) (''*.'' @ str_lower e (lstrip CHR ''.'' (a_basis a))) = []"
  shows "run e a =
           (case stdout e (NoSourceFiles (''*.'' @ str_lower e (lstrip CHR ''.'' (a_basis a)))
                             (a_source_dir a)) of
              None \<Rightarrow>
                (Inr 1,
                 [Print (NoSourceFiles (''*.'' @ str_lower e (lstrip CHR ''.'' (a_basis a)))
                           (a_source_dir a))])
            | Some x \<Rightarrow> (Inl (PrintError x), []))"
proof -
  have "source_files e (a_source_dir a) (''*.'' @ str_lower e (lstrip CHR ''.'' (a_basis a))) = []"
    using assms(2) by (simp add: source_files_empty)
  with assms(1) show ?thesis
    by (simp add: run_def Let_def bind_res_def print_line_def ret_def split: option.splits)
qed

lemma run_all_converted:
  assumes "exists e (a_template a)"
    and "rglob e (a_source_dir a) (''*.'' @ str_lower e (lstrip CHR ''.'' (a_basis a))) \<noteq> []"
    and "stdout_ok e"
    and "fst (mkdir e (a_deployment_dir a)) = Inr ()"
    and "\<forall>p \<in> set (source_files e (a_source_dir a) (''*.'' @ str_lower e (lstrip CHR ''.'' (a_basis a)))).
           \<exists>out. fst (convert_file e p (a_source_dir a) (a_deployment_dir a) (a_template a)) = Inr out"
  shows "fst (run e a) = Inr 0"
proof -
  let ?pat = "''*.'' @ str_lower e (lstrip CHR ''.'' (a_basis a))"
  have ne: "source_files e (a_source_dir a) ?pat \<noteq> []"
    using assms(2) by (simp add: source_files_empty)
  have "fst (convert_all e (a_source_dir a) (a_deployment_dir a) (a_template a)
               (source_files e (a_source_dir a) ?pat)) = Inr ()"
    using assms(3) source_files_under assms(5) by (rule convert_all_ok)
  with assms(1,3,4) ne show ?thesis
    by (simp add: run_def Let_def fst_bind_res fst_print_line fst_ret)
qed

lemma exists_ex_env: "exists ex_env p"
  by (simp add: ex_env_def)

lemma rglob_ex_env:
  "rglob ex_env d ''*.ttl'' = [[''animals.ttl'']]"
  "rglob ex_env d ''*.rdf'' = []"
  by (simp_all add: ex_env_def)

lemma lower_basis:
  "lower (lstrip CHR ''.'' ''.TTL'') = ''ttl''"
  "lower (lstrip CHR ''.'' ''rdf'') = ''rdf''"
  by (simp_all add: lower_def lower_char_def lstrip_def)

text \<open>What \<open>convert_file\<close> does to the scenario's file, whatever standard output is.\<close>

lemma convert_file_ex:
  "convert_file (ex_env\<lparr>stdout := so\<rparr>) [''src'', ''animals.ttl''] [''src''] [''dep''] [''t.j2''] =
     (Inr [(''ttl'', [''dep'', ''animals.ttl'']), (''jsonld'', [''dep'', ''animals.jsonld'']),
           (''owl'', [''dep'', ''animals.owl'']), (''html'', [''dep'', ''animals.html''])],
      [Mkdir [''dep''],
       WriteFile [''dep'', ''animals.ttl''] ''turtle'',
       WriteFile [''dep'', ''animals.jsonld''] ''json-ld'',
       WriteFile [''dep'', ''animals.owl''] ''xml'',
       Mkdir [''dep''],
       WriteFile [''dep'', ''animals.html''] ''html''])"
proof -
  have s: "stem [''animals.ttl''] = ''animals''"
    by (simp add: stem_def name_def rfind_def)
  have l: "load_graph (ex_env\<lparr>stdout := so\<rparr>) [''src'', ''animals.ttl'']
             = Inr (register_prefixes (ex_env\<lparr>stdout := so\<rparr>) ex_graph)"
  proof -
    have "suffix [''src'', ''animals.ttl''] = ''.ttl''"
      by (simp add: suffix_def name_def rfind_def)
    then have "fmt [''src'', ''animals.ttl''] = Some ''turtle''"
      by (simp add: fmt_cases lower_ttl)
    then show ?thesis
      by (simp add: load_graph_def parse_ex_env)
  qed
  have g: "get_template ex_env t = Inr ''template''" for t
    by (simp add: ex_env_def)
  have r: "render ex_env t v = Inr ''html''" for t v
    by (simp add: ex_env_def)
  have z: "serialize ex_env gr d f = (None, Some f)" for gr d f
    by (simp add: ex_env_def)
  have m: "mkdirs ex_env d = (None, [d])" for d
    by (simp add: ex_env_def)
  have w: "write_file ex_env d content = (None, Some content)" for d content
    by (simp add: ex_env_def)
  show ?thesis
    by (simp add: convert_file_def l relative_to_def Let_def s parent_def
          serialise_graph_def serialize_to_def render_html_def g r z m w
          mkdir_def write_text_def written_def bind_res_def ret_def)
qed

text \<open>
  C8, as stated, on a standard output that encodes ASCII only. The one file converts, its
  four artefacts are written, and the run ends with the exception of the first line of an
  output file, not with exit status 0. Where the name of the source directory has a
  character outside ASCII and no file matches, the run ends with the exception of the
  no-input line, not with exit status 1.
\<close>

theorem run_ascii_stdout_counterexample:
  "source_files ascii_env [''src''] ''*.ttl'' = [[''src'', ''animals.ttl'']]
   \<and> fst (convert_file ascii_env [''src'', ''animals.ttl''] [''src''] [''dep''] [''t.j2'']) =
        Inr [(''ttl'', [''dep'', ''animals.ttl'']), (''jsonld'', [''dep'', ''animals.jsonld'']),
             (''owl'', [''dep'', ''animals.owl'']), (''html'', [''dep'', ''animals.html''])]
   \<and> run ascii_env args_ttl =
        (Inl (PrintError ''UnicodeEncodeError''),
         [Print (Converting 1 [''src''] ''ttl''),
          Mkdir [''dep''],
          Print (FileLine [''animals.ttl'']),
          Mkdir [''dep''],
          WriteFile [''dep'', ''animals.ttl''] ''turtle'',
          WriteFile [''dep'', ''animals.jsonld''] ''json-ld'',
          WriteFile [''dep'', ''animals.owl''] ''xml'',
          Mkdir [''dep''],
          WriteFile [''dep'', ''animals.html''] ''html''])
   \<and> rglob ascii_env (a_source_dir args_accent) ''*.rdf'' = []
   \<and> run ascii_env args_accent = (Inl (PrintError ''UnicodeEncodeError''), [])"
proof -
  have f: "source_files ascii_env [''src''] ''*.ttl'' = [[''src'', ''animals.ttl'']]"
    by (simp add: source_files_def ascii_env_def rglob_ex_env)
  have c: "convert_file ascii_env [''src'', ''animals.ttl''] [''src''] [''dep''] [''t.j2''] =
     (Inr [(''ttl'', [''dep'', ''animals.ttl'']), (''jsonld'', [''dep'', ''animals.jsonld'']),
           (''owl'', [''dep'', ''animals.owl'']), (''html'', [''dep'', ''animals.html''])],
      [Mkdir [''dep''],
       WriteFile [''dep'', ''animals.ttl''] ''turtle'',
       WriteFile [''dep'', ''animals.jsonld''] ''json-ld'',
       WriteFile [''dep'', ''animals.owl''] ''xml'',
       Mkdir [''dep''],
       WriteFile [''dep'', ''animals.html''] ''html''])"
    unfolding ascii_env_def by (rule convert_file_ex)
  have e: "exists ascii_env p" for p
    by (simp add: ascii_env_def ex_env_def)
  have b: "str_lower ascii_env = lower"
    by (simp add: ascii_env_def ex_env_def)
  have o: "stdout ascii_env = ascii_stdout"
    by (simp add: ascii_env_def)
  have m: "mkdirs ascii_env d = (None, [d])" for d
    by (simp add: ascii_env_def ex_env_def)
  have r: "rglob ascii_env d ''*.rdf'' = []" for d
    by (simp add: ascii_env_def rglob_ex_env)
  have 1: "run ascii_env args_ttl =
        (Inl (PrintError ''UnicodeEncodeError''),
         [Print (Converting 1 [''src''] ''ttl''),
          Mkdir [''dep''],
          Print (FileLine [''animals.ttl'']),
          Mkdir [''dep''],
          WriteFile [''dep'', ''animals.ttl''] ''turtle'',
          WriteFile [''dep'', ''animals.jsonld''] ''json-ld'',
          WriteFile [''dep'', ''animals.owl''] ''xml'',
          Mkdir [''dep''],
          WriteFile [''dep'', ''animals.html''] ''html''])"
    by (simp add: run_def args_ttl_def Let_def e b lower_basis f c o m
          relative_to_def print_line_def mkdir_def ascii_stdout_def is_ascii_def
          bind_res_def ret_def raise_def)
  have 2: "run ascii_env args_accent = (Inl (PrintError ''UnicodeEncodeError''), [])"
    by (simp add: run_def args_accent_def Let_def e b lower_basis source_files_def r o
          print_line_def ascii_stdout_def is_ascii_def bind_res_def ret_def)
  from f c 1 2 r show ?thesis
    by simp
qed

text \<open>
  C8, amended. With the template in place, so that discovery runs: if it finds no file
  that matches the basis extension, \<open>run\<close> creates no directory and writes no file; it
  prints the no-input line and returns 1 if standard output accepts the line, and ends
  with the exception of \<open>print\<close> if not. If it finds files, the destination root is
  created, \<open>convert_file\<close> succeeds on each of them and standard output accepts every
  line, \<open>run\<close> returns 0.
\<close>

theorem run_exit_status:
  assumes "exists e (a_template a)"
  shows "(rglob e (a_source_dir a) (''*.'' @ str_lower e (lstrip CHR ''.'' (a_basis a))) = [] \<longrightarrow>
            run e a =
              (case stdout e (NoSourceFiles (''*.'' @ str_lower e (lstrip CHR ''.'' (a_basis a)))
                                (a_source_dir a)) of
                 None \<Rightarrow>
                   (Inr 1,
                    [Print (NoSourceFiles (''*.'' @ str_lower e (lstrip CHR ''.'' (a_basis a)))
                              (a_source_dir a))])
               | Some x \<Rightarrow> (Inl (PrintError x), [])))
         \<and> (rglob e (a_source_dir a) (''*.'' @ str_lower e (lstrip CHR ''.'' (a_basis a))) \<noteq> []
              \<and> stdout_ok e
              \<and> fst (mkdir e (a_deployment_dir a)) = Inr ()
              \<and> (\<forall>p \<in> set (source_files e (a_source_dir a)
                              (''*.'' @ str_lower e (lstrip CHR ''.'' (a_basis a)))).
                    \<exists>out. fst (convert_file e p (a_source_dir a) (a_deployment_dir a) (a_template a)) = Inr out)
            \<longrightarrow> fst (run e a) = Inr 0)"
proof (intro conjI impI)
  assume "rglob e (a_source_dir a) (''*.'' @ str_lower e (lstrip CHR ''.'' (a_basis a))) = []"
  with assms show "run e a =
              (case stdout e (NoSourceFiles (''*.'' @ str_lower e (lstrip CHR ''.'' (a_basis a)))
                                (a_source_dir a)) of
                 None \<Rightarrow>
                   (Inr 1,
                    [Print (NoSourceFiles (''*.'' @ str_lower e (lstrip CHR ''.'' (a_basis a)))
                              (a_source_dir a))])
               | Some x \<Rightarrow> (Inl (PrintError x), []))"
    by (rule run_no_input)
next
  assume "rglob e (a_source_dir a) (''*.'' @ str_lower e (lstrip CHR ''.'' (a_basis a))) \<noteq> []
              \<and> stdout_ok e
              \<and> fst (mkdir e (a_deployment_dir a)) = Inr ()
              \<and> (\<forall>p \<in> set (source_files e (a_source_dir a)
                              (''*.'' @ str_lower e (lstrip CHR ''.'' (a_basis a)))).
                    \<exists>out. fst (convert_file e p (a_source_dir a) (a_deployment_dir a) (a_template a)) = Inr out)"
  with assms show "fst (run e a) = Inr 0"
    by (intro run_all_converted) simp_all
qed

theorem run_exit_status_witness:
  "exists ex_env (a_template args_rdf)
   \<and> rglob ex_env (a_source_dir args_rdf) (''*.'' @ str_lower ex_env (lstrip CHR ''.'' (a_basis args_rdf))) = []
   \<and> stdout ex_env (NoSourceFiles ''*.rdf'' [''src'']) = None
   \<and> run ex_env args_rdf = (Inr 1, [Print (NoSourceFiles ''*.rdf'' [''src''])])
   \<and> source_files ex_env (a_source_dir args_ttl)
        (''*.'' @ str_lower ex_env (lstrip CHR ''.'' (a_basis args_ttl)))
       = [[''src'', ''animals.ttl'']]
   \<and> stdout_ok ex_env
   \<and> fst (mkdir ex_env (a_deployment_dir args_ttl)) = Inr ()
   \<and> fst (convert_file ex_env [''src'', ''animals.ttl''] [''src''] [''dep''] [''t.j2'']) =
        Inr [(''ttl'', [''dep'', ''animals.ttl'']), (''jsonld'', [''dep'', ''animals.jsonld'']),
             (''owl'', [''dep'', ''animals.owl'']), (''html'', [''dep'', ''animals.html''])]
   \<and> fst (run ex_env args_ttl) = Inr 0"
proof -
  have f: "source_files ex_env [''src''] ''*.ttl'' = [[''src'', ''animals.ttl'']]"
    by (simp add: source_files_def rglob_ex_env)
  have o: "stdout ex_env m = None" for m
    by (simp add: ex_env_def)
  have k: "stdout_ok ex_env"
    by (simp add: stdout_ok_def o)
  have d: "fst (mkdir ex_env p) = Inr ()" for p
    by (simp add: mkdir_def ex_env_def)
  have c: "convert_file ex_env [''src'', ''animals.ttl''] [''src''] [''dep''] [''t.j2''] =
     (Inr [(''ttl'', [''dep'', ''animals.ttl'']), (''jsonld'', [''dep'', ''animals.jsonld'']),
           (''owl'', [''dep'', ''animals.owl'']), (''html'', [''dep'', ''animals.html''])],
      [Mkdir [''dep''],
       WriteFile [''dep'', ''animals.ttl''] ''turtle'',
       WriteFile [''dep'', ''animals.jsonld''] ''json-ld'',
       WriteFile [''dep'', ''animals.owl''] ''xml'',
       Mkdir [''dep''],
       WriteFile [''dep'', ''animals.html''] ''html''])"
    using convert_file_ex [of "stdout ex_env"] by simp
  show ?thesis
    using run_exit_status [of ex_env args_rdf] run_exit_status [of ex_env args_ttl]
    by (simp add: args_rdf_def args_ttl_def exists_ex_env str_lower_ex_env lower_basis
          rglob_ex_env f o k d c)
qed

end
